theory Spec2Isabelle
  imports Complex_Main
begin

section \<open>Recommendation engine (services/recommendation.ts)\<close>

text \<open>
  A JavaScript number is a \<^typ>\<open>real\<close>. The arithmetic of the relevance score, of
  the price affinity and of the final score is the code's double-precision arithmetic:
  every operation is rounded to the nearest double, ties to even (\<open>rnd\<close> below), and
  a decimal literal stands for the double nearest to it. NaN and the infinities are not
  values of the model. The social boost, the social graph and the behavior tables are
  computed in exact arithmetic. Integer database columns (ids, counters) are
  \<^typ>\<open>int\<close>, text columns are \<^typ>\<open>string\<close>.
\<close>

subsection \<open>Double-precision arithmetic\<close>

text \<open>Rounding a real to the nearest integer, a tie to the even one.\<close>

definition rne :: "real \<Rightarrow> real" where
  "rne m =
     (let f = \<lfloor>m\<rfloor>; d = m - of_int f
      in if d < 1 / 2 then of_int f
         else if d > 1 / 2 then of_int (f + 1)
         else if even f then of_int f else of_int (f + 1))"

text \<open>
  Scaling a magnitude \<open>m * s\<close>, with \<open>s = 2 ^ e\<close>, until the significand \<open>m\<close> has 53
  bits, \<open>2 ^ 52 \<le> m < 2 ^ 53\<close>, within the exponent range of binary64: the unit in the
  last place is never below \<open>2 ^ -1074\<close> (subnormal numbers) nor above \<open>2 ^ 971\<close>.
\<close>

function normUp :: "real \<Rightarrow> real \<Rightarrow> int \<Rightarrow> real \<times> real" where
  "normUp m s e = (if 2 ^ 53 \<le> m \<and> e < 971 then normUp (m / 2) (s * 2) (e + 1) else (m, s))"
  by pat_completeness auto
termination
  by (relation "measure (\<lambda>(m, s, e). nat (971 - e))") auto

function normDown :: "real \<Rightarrow> real \<Rightarrow> int \<Rightarrow> real \<times> real" where
  "normDown m s e = (if m < 2 ^ 52 \<and> - 1074 < e then normDown (m * 2) (s / 2) (e - 1) else (m, s))"
  by pat_completeness auto
termination
  by (relation "measure (\<lambda>(m, s, e). nat (e + 1074))") auto

declare normUp.simps [simp del] normDown.simps [simp del]

text \<open>
  \<open>rnd x\<close>: the double nearest to \<open>x\<close>, ties to even. A magnitude of \<open>2 ^ 1024\<close> or
  more, which a double operation turns into an infinity, is outside the model.
\<close>

definition rnd :: "real \<Rightarrow> real" where
  "rnd x =
     (if x = 0 then 0
      else case (if 2 ^ 53 \<le> \<bar>x\<bar> then normUp \<bar>x\<bar> 1 0 else normDown \<bar>x\<bar> 1 0) of
             (m, s) \<Rightarrow> sgn x * (rne m * s))"

text \<open>The operations \<open>+\<close>, \<open>*\<close> and \<open>/\<close> on doubles.\<close>

definition fadd :: "real \<Rightarrow> real \<Rightarrow> real" where "fadd x y = rnd (x + y)"
definition fmul :: "real \<Rightarrow> real \<Rightarrow> real" where "fmul x y = rnd (x * y)"
definition fdiv :: "real \<Rightarrow> real \<Rightarrow> real" where "fdiv x y = rnd (x / y)"

subsection \<open>Constants\<close>

definition WEIGHTS_RELEVANCE :: real where "WEIGHTS_RELEVANCE = rnd 0.55"
definition WEIGHTS_SOCIAL :: real where "WEIGHTS_SOCIAL = rnd 0.15"
definition WEIGHTS_PRICE :: real where "WEIGHTS_PRICE = rnd 0.20"
definition WEIGHTS_ENGAGEMENT :: real where "WEIGHTS_ENGAGEMENT = rnd 0.10"

definition MIN_RELEVANCE_THRESHOLD :: real where "MIN_RELEVANCE_THRESHOLD = 3.0"

subsection \<open>Types\<close>

datatype Tier = basic | middle | high

datatype Status = open_status | claimed | completed | expired

text \<open>The type \<open>1 | 2 | 3\<close> of a connection's layer.\<close>

datatype Layer = L1 | L2 | L3

fun layerNum :: "Layer \<Rightarrow> nat" where
  "layerNum L1 = 1"
| "layerNum L2 = 2"
| "layerNum L3 = 3"

record UserTagScore =
  tagId :: int
  tagName :: string
  score :: real

record UserProfile =
  avgPriceViewed :: real
  userEngagementScore :: real
  accessTier :: Tier

record MutualConnection =
  mutualId :: string
  layer :: Layer
  strength :: real

record RecommendationInput =
  userId :: string
  userTags :: "UserTagScore list"
  userProfile :: UserProfile
  mutuals :: "MutualConnection list"

record BountyTag =
  btTagId :: int
  weight :: real

text \<open>
  \<open>BountyData\<close> without its date fields and creator/claimer ids, which no scoring
  function reads.
\<close>

record BountyData =
  bountyId :: int
  title :: string
  description :: string
  price :: real
  tier :: Tier
  status :: Status
  views :: int
  submissions :: int
  likes :: int
  engagementScore :: real

record ScoredBounty =
  bounty :: BountyData
  relevanceScore :: real
  socialBoost :: real
  priceAffinity :: real
  finalScore :: real

record DebugInfo =
  totalCandidates :: nat
  filteredByTier :: nat
  filteredByRelevance :: nat
  topRelevanceScores :: "real list"

record RecommendationOutput =
  primary :: ScoredBounty
  secondary :: ScoredBounty
  debug :: DebugInfo

datatype error = NoBountiesAvailable

subsection \<open>Helper functions\<close>

text \<open>\<open>tierOrder\<close>: basic 1, middle 2, high 3.\<close>

fun tierOrder :: "Tier \<Rightarrow> int" where
  "tierOrder basic = 1"
| "tierOrder middle = 2"
| "tierOrder high = 3"

definition filterByAccessTier :: "BountyData list \<Rightarrow> Tier \<Rightarrow> BountyData list" where
  "filterByAccessTier bounties accessTier' =
     (let userTierLevel = tierOrder accessTier'
      in filter (\<lambda>b. tierOrder (tier b) \<le> userTierLevel) bounties)"

text \<open>
  \<open>new Map(userTags.map((t) => [t.tagId, t.score]))\<close>: a later entry for the same
  key replaces an earlier one, so the lookup finds the last entry of the list.
\<close>

definition userTagMap :: "UserTagScore list \<Rightarrow> (int \<rightharpoonup> real)" where
  "userTagMap uts = map_of (rev (map (\<lambda>t. (tagId t, score t)) uts))"

text \<open>\<open>x || 0\<close> on an optional number: \<open>undefined\<close> and \<open>0\<close> both give \<open>0\<close>.\<close>

fun orZero :: "real option \<Rightarrow> real" where
  "orZero None = 0"
| "orZero (Some v) = (if v = 0 then 0 else v)"

text \<open>The \<open>for\<close> loop of \<open>computeRelevanceScore\<close> over \<open>(totalScore, totalWeight)\<close>.\<close>

fun relevanceLoop :: "(int \<rightharpoonup> real) \<Rightarrow> BountyTag list \<Rightarrow> real \<times> real \<Rightarrow> real \<times> real" where
  "relevanceLoop m [] acc = acc"
| "relevanceLoop m (bt # bts) (totalScore, totalWeight) =
     (let userScore = orZero (m (btTagId bt))
      in relevanceLoop m bts
           (fadd totalScore (fmul userScore (weight bt)), fadd totalWeight (weight bt)))"

definition computeRelevanceScore :: "UserTagScore list \<Rightarrow> BountyTag list \<Rightarrow> real" where
  "computeRelevanceScore uts bountyTags =
     (if length bountyTags = 0 then 0
      else case relevanceLoop (userTagMap uts) bountyTags (0, 0) of
             (totalScore, totalWeight) \<Rightarrow>
               if totalWeight > 0 then fmul (fdiv totalScore totalWeight) 2 else 0)"

text \<open>
  \<open>mutualInteractions.get(id) || []\<close>: an array is always truthy, so only a missing
  key gives the empty list.
\<close>

fun orEmpty :: "'a list option \<Rightarrow> 'a list" where
  "orEmpty None = []"
| "orEmpty (Some xs) = xs"

text \<open>The \<open>for\<close> loop of \<open>computeSocialBoost\<close> over \<open>boost\<close>.\<close>

fun socialLoop :: "int \<Rightarrow> (string \<rightharpoonup> int list) \<Rightarrow> MutualConnection list \<Rightarrow> real \<Rightarrow> real" where
  "socialLoop bid mi [] boost = boost"
| "socialLoop bid mi (mutual # ms) boost =
     (let interactedBounties = orEmpty (mi (mutualId mutual))
      in if bid \<in> set interactedBounties
         then (let layerMultiplier = 1 / 2 ^ (layerNum (layer mutual) - 1)
               in socialLoop bid mi ms (boost + strength mutual * layerMultiplier))
         else socialLoop bid mi ms boost)"

definition computeSocialBoost :: "int \<Rightarrow> MutualConnection list \<Rightarrow> (string \<rightharpoonup> int list) \<Rightarrow> real" where
  "computeSocialBoost bid ms mi = min (socialLoop bid mi ms 0) 2.0"

definition computePriceHistoryScore :: "real \<Rightarrow> real \<Rightarrow> real" where
  "computePriceHistoryScore bountyPrice avg =
     (if avg \<le> 0 then 0.5
      else (let ratio = fdiv bountyPrice avg
            in if ratio \<ge> 0.5 \<and> ratio \<le> 2.0 then 1.0
               else if ratio < 0.5 then max (rnd 0.1) (fmul ratio 2)
               else max (rnd 0.2) (fdiv 2.0 ratio)))"

definition computePriceAffinityTierAware :: "real \<Rightarrow> Tier \<Rightarrow> real \<Rightarrow> Tier \<Rightarrow> real" where
  "computePriceAffinityTierAware bountyPrice bountyTier avg userAccessTier =
     (if avg \<le> 0 then (if bountyTier = userAccessTier then rnd 0.8 else 0.5)
      else (let historyScore = computePriceHistoryScore bountyPrice avg;
                userTierLevel = tierOrder userAccessTier;
                bountyTierLevel = tierOrder bountyTier;
                tierDiff = userTierLevel - bountyTierLevel;
                tierBonus = (if tierDiff = 0 then rnd 0.1
                             else if tierDiff = 1 then 0
                             else if tierDiff \<ge> 2 then - rnd 0.1
                             else 0)
            in max 0 (min 1 (fadd historyScore tierBonus))))"

text \<open>
  \<open>xs.sort((a, b) => b.finalScore - a.finalScore)\<close>: a stable sort, descending in
  \<open>finalScore\<close>.
\<close>

definition sortByFinalScore :: "ScoredBounty list \<Rightarrow> ScoredBounty list" where
  "sortByFinalScore xs = sort_key (\<lambda>sb. - finalScore sb) xs"

text \<open>\<open>xs[1] || d\<close> and \<open>xs[0]\<close> on an array of objects.\<close>

fun secondOr :: "'a list \<Rightarrow> 'a \<Rightarrow> 'a" where
  "secondOr (x # y # ys) d = y"
| "secondOr xs d = d"

fun firstOpt :: "'a list \<Rightarrow> 'a option" where
  "firstOpt [] = None"
| "firstOpt (x # xs) = Some x"

definition selectStretchBounty :: "ScoredBounty list \<Rightarrow> ScoredBounty option" where
  "selectStretchBounty scoredBounties =
     (let stretchCandidates = filter (\<lambda>sb.
            let isLowRelevance = relevanceScore sb < 3.0;
                topScore = (case firstOpt scoredBounties of
                              None \<Rightarrow> 1
                            | Some t \<Rightarrow> if finalScore t = 0 then 1 else finalScore t);
                isDecentOverall = finalScore sb > fmul topScore (rnd 0.2)
            in isLowRelevance \<and> isDecentOverall) scoredBounties
      in firstOpt (sortByFinalScore stretchCandidates))"

subsection \<open>Main algorithm\<close>

text \<open>
  The body of the \<open>map\<close> callback that scores one bounty. \<open>getRecommendations\<close>
  (step 2) and \<open>scoreAllBounties\<close> contain the same computation.
\<close>

definition scoreBounty ::
  "RecommendationInput \<Rightarrow> (int \<rightharpoonup> BountyTag list) \<Rightarrow> (string \<rightharpoonup> int list) \<Rightarrow> BountyData \<Rightarrow> ScoredBounty" where
  "scoreBounty input bountyTagMap mutualInteractions b =
     (let tags = orEmpty (bountyTagMap (bountyId b));
          relevanceScore' = computeRelevanceScore (userTags input) tags;
          socialBoost' = computeSocialBoost (bountyId b) (mutuals input) mutualInteractions;
          priceAffinity' = computePriceAffinityTierAware (price b) (tier b)
                             (avgPriceViewed (userProfile input)) (accessTier (userProfile input));
          normalizedEngagement = min (fdiv (engagementScore b) 10) 1;
          finalScore' =
            fadd (fadd (fadd
              (fmul (fmul (fdiv relevanceScore' 10) WEIGHTS_RELEVANCE) 10)
              (fmul (fmul (fdiv socialBoost' 2) WEIGHTS_SOCIAL) 10))
              (fmul (fmul priceAffinity' WEIGHTS_PRICE) 10))
              (fmul (fmul normalizedEngagement WEIGHTS_ENGAGEMENT) 10)
      in \<lparr>bounty = b, relevanceScore = relevanceScore', socialBoost = socialBoost',
          priceAffinity = priceAffinity', finalScore = finalScore'\<rparr>)"

definition getRecommendations ::
  "RecommendationInput \<Rightarrow> BountyData list \<Rightarrow> (int \<rightharpoonup> BountyTag list) \<Rightarrow> (string \<rightharpoonup> int list)
     \<Rightarrow> error + RecommendationOutput" where
  "getRecommendations input allBounties bountyTagMap mutualInteractions =
     (let accessibleBounties = filterByAccessTier allBounties (accessTier (userProfile input));
          allScoredBounties = map (scoreBounty input bountyTagMap mutualInteractions) accessibleBounties;
          scoredBounties = sortByFinalScore
            (filter (\<lambda>sb. relevanceScore sb \<ge> MIN_RELEVANCE_THRESHOLD) allScoredBounties);
          secondary' = selectStretchBounty scoredBounties
      in case firstOpt scoredBounties of
           None \<Rightarrow>
             (let allSorted = sortByFinalScore allScoredBounties
              in case firstOpt allSorted of
                   None \<Rightarrow> Inl NoBountiesAvailable
                 | Some fallback \<Rightarrow>
                     Inr \<lparr>primary = fallback,
                          secondary = secondOr allSorted fallback,
                          debug = \<lparr>totalCandidates = length allBounties,
                                   filteredByTier = length accessibleBounties,
                                   filteredByRelevance = 0,
                                   topRelevanceScores = map relevanceScore (take 5 allSorted)\<rparr>\<rparr>)
         | Some primary' \<Rightarrow>
             Inr \<lparr>primary = primary',
                  secondary = (case secondary' of
                                 Some s \<Rightarrow> s
                               | None \<Rightarrow> secondOr scoredBounties primary'),
                  debug = \<lparr>totalCandidates = length allBounties,
                           filteredByTier = length accessibleBounties,
                           filteredByRelevance = length scoredBounties,
                           topRelevanceScores = map relevanceScore (take 5 scoredBounties)\<rparr>\<rparr>)"

definition scoreAllBounties ::
  "RecommendationInput \<Rightarrow> BountyData list \<Rightarrow> (int \<rightharpoonup> BountyTag list) \<Rightarrow> (string \<rightharpoonup> int list)
     \<Rightarrow> bool \<Rightarrow> ScoredBounty list" where
  "scoreAllBounties input allBounties bountyTagMap mutualInteractions applyRelevanceFilter =
     (let accessibleBounties = filterByAccessTier allBounties (accessTier (userProfile input));
          scoredBounties = map (scoreBounty input bountyTagMap mutualInteractions) accessibleBounties
      in if applyRelevanceFilter
         then filter (\<lambda>sb. relevanceScore sb \<ge> MIN_RELEVANCE_THRESHOLD) scoredBounties
         else scoredBounties)"

section \<open>Social graph expansion (getMutualsThreeLayers)\<close>

text \<open>
  A row of the \<open>mutual\<close> table. A query \<open>db.select().from(mutual).where(c)\<close> is the
  table's rows that satisfy \<open>c\<close>, in table order.
\<close>

record MutualRow =
  mUserId :: string
  mMutualId :: string
  mLayer :: int
  mStrength :: real

text \<open>\<open>Set.add\<close> on a set kept as a duplicate-free list in insertion order.\<close>

definition setAdd :: "'a \<Rightarrow> 'a list \<Rightarrow> 'a list" where
  "setAdd x xs = (if x \<in> set xs then xs else xs @ [x])"

text \<open>The loop over \<open>layer2Raw\<close>, on the pair \<open>(layer2Ids, result)\<close>.\<close>

fun layer2Loop ::
  "string \<Rightarrow> string list \<Rightarrow> MutualRow list \<Rightarrow> string list \<times> MutualConnection list
     \<Rightarrow> string list \<times> MutualConnection list" where
  "layer2Loop uid layer1Ids [] acc = acc"
| "layer2Loop uid layer1Ids (m # ms) (layer2Ids, result) =
     (if mMutualId m \<notin> set layer1Ids \<and> mMutualId m \<noteq> uid
      then layer2Loop uid layer1Ids ms
             (setAdd (mMutualId m) layer2Ids,
              result @ [\<lparr>mutualId = mMutualId m, layer = L2, strength = mStrength m * 0.5\<rparr>])
      else layer2Loop uid layer1Ids ms (layer2Ids, result))"

text \<open>The loop over \<open>layer3Raw\<close>, on \<open>result\<close>.\<close>

fun layer3Loop ::
  "string \<Rightarrow> string list \<Rightarrow> string list \<Rightarrow> MutualRow list \<Rightarrow> MutualConnection list
     \<Rightarrow> MutualConnection list" where
  "layer3Loop uid layer1Ids layer2Ids [] result = result"
| "layer3Loop uid layer1Ids layer2Ids (m # ms) result =
     (if mMutualId m \<notin> set layer1Ids \<and> mMutualId m \<notin> set layer2Ids \<and> mMutualId m \<noteq> uid
      then layer3Loop uid layer1Ids layer2Ids ms
             (result @ [\<lparr>mutualId = mMutualId m, layer = L3, strength = mStrength m * 0.25\<rparr>])
      else layer3Loop uid layer1Ids layer2Ids ms result)"

definition getMutualsThreeLayers :: "MutualRow list \<Rightarrow> string \<Rightarrow> MutualConnection list" where
  "getMutualsThreeLayers mutualTable uid =
     (let layer1 = filter (\<lambda>m. mUserId m = uid) mutualTable
      in if length layer1 = 0 then []
         else
           (let layer1Ids = map mMutualId layer1;
                result = map (\<lambda>m. \<lparr>mutualId = mMutualId m, layer = L1, strength = mStrength m\<rparr>) layer1;
                layer2Raw = filter (\<lambda>m. mUserId m \<in> set layer1Ids \<and> mMutualId m \<noteq> uid) mutualTable
            in case layer2Loop uid layer1Ids layer2Raw ([], result) of
                 (layer2Ids, result2) \<Rightarrow>
                   if length layer2Ids > 0
                   then (let layer3Raw = filter (\<lambda>m. mUserId m \<in> set layer2Ids \<and> mMutualId m \<noteq> uid)
                                           mutualTable
                         in layer3Loop uid layer1Ids layer2Ids layer3Raw result2)
                   else result2))"

section \<open>Behavior tracking (services/behavior.ts)\<close>

subsection \<open>Constants and tables\<close>

datatype InteractionType = view | like | submit | complete

fun BEHAVIOR_WEIGHTS :: "InteractionType \<Rightarrow> real" where
  "BEHAVIOR_WEIGHTS view = 0.1"
| "BEHAVIOR_WEIGHTS like = 0.2"
| "BEHAVIOR_WEIGHTS submit = 0.3"
| "BEHAVIOR_WEIGHTS complete = 0.4"

definition START_BLENDING :: int where "START_BLENDING = 10"
definition EQUAL_WEIGHT :: int where "EQUAL_WEIGHT = 50"
definition TRUST_IMPLICIT :: int where "TRUST_IMPLICIT = 100"

text \<open>
  Rows of the tables the service reads and writes, without the serial ids and the
  timestamps. A table is the list of its rows; \<open>findFirst\<close> is \<^const>\<open>List.find\<close>,
  \<open>update ... where c\<close> rewrites every row that satisfies \<open>c\<close>, \<open>insert\<close> appends a
  row.
\<close>

record UserBehaviorTag =
  ubtUserId :: string
  ubtTagId :: int
  viewCount :: int
  viewScore :: real
  likeCount :: int
  likeScore :: real
  submitCount :: int
  submitScore :: real
  completeCount :: int
  completeScore :: real
  implicitScore :: real
  lastExplicitScore :: "real option"
  divergenceDetected :: bool

record UserBehaviorPrice =
  ubpUserId :: string
  avgPriceViewedB :: real
  avgPriceLiked :: real
  avgPriceSubmitted :: real
  avgPriceCompleted :: real
  implicitPriceMin :: "real option"
  implicitPriceMax :: "real option"

record UserBlendConfig =
  ubcUserId :: string
  explicitWeight :: real
  implicitWeight :: real
  totalInteractions :: int
  lastDivergencePrompt :: "int option"
  divergencePromptCount :: int

record UserTagRow =
  utUserId :: string
  utTagId :: int
  utScore :: int
  utSource :: string

record BountyTagRow =
  btrBountyId :: int
  btrTagId :: int
  btrWeight :: real

record Db =
  bountyTable :: "BountyData list"
  bountyTagTable :: "BountyTagRow list"
  userTagTable :: "UserTagRow list"
  userBehaviorTagTable :: "UserBehaviorTag list"
  userBehaviorPriceTable :: "UserBehaviorPrice list"
  userBlendConfigTable :: "UserBlendConfig list"

text \<open>The column defaults of \<open>user_behavior_tag\<close>.\<close>

definition defaultBehaviorTag :: "string \<Rightarrow> int \<Rightarrow> UserBehaviorTag" where
  "defaultBehaviorTag uid tid =
     \<lparr>ubtUserId = uid, ubtTagId = tid, viewCount = 0, viewScore = 0, likeCount = 0, likeScore = 0,
      submitCount = 0, submitScore = 0, completeCount = 0, completeScore = 0, implicitScore = 0,
      lastExplicitScore = None, divergenceDetected = False\<rparr>"

text \<open>
  The fields \<open>`${interactionType}Count`\<close> and \<open>`${interactionType}Score`\<close>: reading the
  count, and writing both.
\<close>

fun countField :: "InteractionType \<Rightarrow> UserBehaviorTag \<Rightarrow> int" where
  "countField view r = viewCount r"
| "countField like r = likeCount r"
| "countField submit r = submitCount r"
| "countField complete r = completeCount r"

fun scoreField :: "InteractionType \<Rightarrow> UserBehaviorTag \<Rightarrow> real" where
  "scoreField view r = viewScore r"
| "scoreField like r = likeScore r"
| "scoreField submit r = submitScore r"
| "scoreField complete r = completeScore r"

fun setCountScore :: "InteractionType \<Rightarrow> int \<Rightarrow> real \<Rightarrow> UserBehaviorTag \<Rightarrow> UserBehaviorTag" where
  "setCountScore view c s r = r\<lparr>viewCount := c, viewScore := s\<rparr>"
| "setCountScore like c s r = r\<lparr>likeCount := c, likeScore := s\<rparr>"
| "setCountScore submit c s r = r\<lparr>submitCount := c, submitScore := s\<rparr>"
| "setCountScore complete c s r = r\<lparr>completeCount := c, completeScore := s\<rparr>"

subsection \<open>Tag behavior\<close>

definition computeImplicitTagScore :: "UserBehaviorTag \<Rightarrow> real" where
  "computeImplicitTagScore behavior =
     (let raw = viewScore behavior * 0.1 + likeScore behavior * 0.2
                + submitScore behavior * 0.3 + completeScore behavior * 0.4
      in min 10 raw)"

definition updateTagBehavior ::
  "UserBehaviorTag list \<Rightarrow> string \<Rightarrow> int \<Rightarrow> InteractionType \<Rightarrow> UserBehaviorTag list" where
  "updateTagBehavior tbl uid tid t =
     (case List.find (\<lambda>r. ubtUserId r = uid \<and> ubtTagId r = tid) tbl of
        Some existing \<Rightarrow>
          (let newCount = countField t existing + 1;
               newScore = min 10 (real_of_int newCount * BEHAVIOR_WEIGHTS t * 2);
               newImplicit = computeImplicitTagScore (setCountScore t newCount newScore existing)
           in map (\<lambda>r. if ubtUserId r = uid \<and> ubtTagId r = tid
                        then (setCountScore t newCount newScore r)\<lparr>implicitScore := newImplicit\<rparr>
                        else r) tbl)
      | None \<Rightarrow>
          (let initialCount = 1;
               initialScore = BEHAVIOR_WEIGHTS t * 2
           in tbl @ [(setCountScore t initialCount initialScore (defaultBehaviorTag uid tid))
                       \<lparr>implicitScore := initialScore\<rparr>]))"

subsection \<open>Price behavior\<close>

fun priceField :: "InteractionType \<Rightarrow> UserBehaviorPrice \<Rightarrow> real" where
  "priceField view r = avgPriceViewedB r"
| "priceField like r = avgPriceLiked r"
| "priceField submit r = avgPriceSubmitted r"
| "priceField complete r = avgPriceCompleted r"

fun setPriceField :: "InteractionType \<Rightarrow> real \<Rightarrow> UserBehaviorPrice \<Rightarrow> UserBehaviorPrice" where
  "setPriceField view v r = r\<lparr>avgPriceViewedB := v\<rparr>"
| "setPriceField like v r = r\<lparr>avgPriceLiked := v\<rparr>"
| "setPriceField submit v r = r\<lparr>avgPriceSubmitted := v\<rparr>"
| "setPriceField complete v r = r\<lparr>avgPriceCompleted := v\<rparr>"

text \<open>\<open>Math.min(...xs)\<close> and \<open>Math.max(...xs)\<close> of a non-empty array \<open>x # xs\<close>.\<close>

fun minOf :: "real \<Rightarrow> real list \<Rightarrow> real" where
  "minOf x [] = x"
| "minOf x (y # ys) = minOf (min x y) ys"

fun maxOf :: "real \<Rightarrow> real list \<Rightarrow> real" where
  "maxOf x [] = x"
| "maxOf x (y # ys) = maxOf (max x y) ys"

definition updatePriceBehavior ::
  "UserBehaviorPrice list \<Rightarrow> string \<Rightarrow> real \<Rightarrow> InteractionType \<Rightarrow> UserBehaviorPrice list" where
  "updatePriceBehavior tbl uid price' t =
     (case List.find (\<lambda>r. ubpUserId r = uid) tbl of
        None \<Rightarrow>
          tbl @ [\<lparr>ubpUserId = uid,
                  avgPriceViewedB = (if t = view then price' else 0),
                  avgPriceLiked = (if t = like then price' else 0),
                  avgPriceSubmitted = (if t = submit then price' else 0),
                  avgPriceCompleted = (if t = complete then price' else 0),
                  implicitPriceMin = None, implicitPriceMax = None\<rparr>]
      | Some existing \<Rightarrow>
          (let alpha = 0.1;
               currentAvg = priceField t existing;
               newAvg = (if currentAvg = 0 then price' else currentAvg * (1 - alpha) + price' * alpha);
               allAvgs = filter (\<lambda>v. v > 0)
                 [if t = view then newAvg else avgPriceViewedB existing,
                  if t = like then newAvg else avgPriceLiked existing,
                  if t = submit then newAvg else avgPriceSubmitted existing,
                  if t = complete then newAvg else avgPriceCompleted existing];
               implicitMin = (case allAvgs of [] \<Rightarrow> None | v # vs \<Rightarrow> Some (minOf v vs * 0.5));
               implicitMax = (case allAvgs of [] \<Rightarrow> None | v # vs \<Rightarrow> Some (maxOf v vs * 1.5))
           in map (\<lambda>r. if ubpUserId r = uid
                        then (setPriceField t newAvg r)
                               \<lparr>implicitPriceMin := implicitMin, implicitPriceMax := implicitMax\<rparr>
                        else r) tbl))"

subsection \<open>Blend configuration\<close>

text \<open>The weights \<open>updateBlendConfig\<close> computes from \<open>newTotal\<close>.\<close>

definition blendWeights :: "int \<Rightarrow> real \<times> real" where
  "blendWeights newTotal =
     (if newTotal \<ge> TRUST_IMPLICIT then (0.3, 0.7)
      else if newTotal \<ge> EQUAL_WEIGHT then (0.5, 0.5)
      else if newTotal \<ge> START_BLENDING then
        (let progress = real_of_int (newTotal - START_BLENDING)
                          / real_of_int (EQUAL_WEIGHT - START_BLENDING)
         in (0.8 - progress * 0.3, 0.2 + progress * 0.3))
      else (0.8, 0.2))"

definition updateBlendConfig :: "UserBlendConfig list \<Rightarrow> string \<Rightarrow> UserBlendConfig list" where
  "updateBlendConfig tbl uid =
     (case List.find (\<lambda>c. ubcUserId c = uid) tbl of
        None \<Rightarrow> tbl
      | Some config \<Rightarrow>
          (let newTotal = totalInteractions config + 1
           in case blendWeights newTotal of
                (explicitWeight', implicitWeight') \<Rightarrow>
                  map (\<lambda>c. if ubcUserId c = uid
                           then c\<lparr>totalInteractions := newTotal,
                                  explicitWeight := explicitWeight',
                                  implicitWeight := implicitWeight'\<rparr>
                           else c) tbl))"

subsection \<open>Divergence\<close>

text \<open>
  \<open>new Map(pairs)\<close> as the list of its entries in iteration order: a key keeps the
  position of its first occurrence and takes the value of its last.
\<close>

fun mapSet :: "'k \<Rightarrow> 'v \<Rightarrow> ('k \<times> 'v) list \<Rightarrow> ('k \<times> 'v) list" where
  "mapSet k v [] = [(k, v)]"
| "mapSet k v ((k', v') # kvs) = (if k' = k then (k, v) # kvs else (k', v') # mapSet k v kvs)"

definition newMap :: "('k \<times> 'v) list \<Rightarrow> ('k \<times> 'v) list" where
  "newMap kvs = foldl (\<lambda>m (k, v). mapSet k v m) [] kvs"

text \<open>\<open>!explicitScore\<close> on the result of \<open>explicitMap.get\<close>.\<close>

fun falsy :: "int option \<Rightarrow> bool" where
  "falsy None = True"
| "falsy (Some e) = (e = 0)"

definition setDivergence :: "string \<Rightarrow> int \<Rightarrow> real \<Rightarrow> UserBehaviorTag list \<Rightarrow> UserBehaviorTag list" where
  "setDivergence uid tid e tbl =
     map (\<lambda>r. if ubtUserId r = uid \<and> ubtTagId r = tid
              then r\<lparr>divergenceDetected := True, lastExplicitScore := Some e\<rparr>
              else r) tbl"

text \<open>The body of the loop over \<open>implicitMap\<close> in \<open>checkDivergence\<close>.\<close>

definition divergenceStep ::
  "string \<Rightarrow> (int \<rightharpoonup> int) \<Rightarrow> int \<times> real \<Rightarrow> UserBehaviorTag list \<Rightarrow> UserBehaviorTag list" where
  "divergenceStep uid explicitMap entry tbl =
     (case entry of (tid, implicitScore') \<Rightarrow>
        (let explicitScore = explicitMap tid;
             tbl1 = (if falsy explicitScore \<and> implicitScore' \<ge> 3
                     then setDivergence uid tid 0 tbl else tbl)
         in case explicitScore of
              None \<Rightarrow> tbl1
            | Some e \<Rightarrow>
                if e \<noteq> 0 \<and> e \<ge> 4 \<and> implicitScore' < 1
                then setDivergence uid tid (real_of_int e) tbl1 else tbl1))"

definition checkDivergence :: "Db \<Rightarrow> string \<Rightarrow> Db" where
  "checkDivergence db uid =
     (let explicitTags = filter (\<lambda>t. utUserId t = uid) (userTagTable db);
          implicitTags = filter (\<lambda>r. ubtUserId r = uid) (userBehaviorTagTable db);
          explicitMap = map_of (rev (map (\<lambda>t. (utTagId t, utScore t)) explicitTags));
          implicitMap = newMap (map (\<lambda>r. (ubtTagId r, implicitScore r)) implicitTags)
      in db\<lparr>userBehaviorTagTable :=
               fold (divergenceStep uid explicitMap) implicitMap (userBehaviorTagTable db)\<rparr>)"

definition clearDivergence :: "Db \<Rightarrow> string \<Rightarrow> int \<Rightarrow> Db" where
  "clearDivergence db uid tid =
     db\<lparr>userBehaviorTagTable :=
          map (\<lambda>r. if ubtUserId r = uid \<and> ubtTagId r = tid
                   then r\<lparr>divergenceDetected := False\<rparr> else r) (userBehaviorTagTable db)\<rparr>"

text \<open>\<open>new Date()\<close> is the parameter \<open>now\<close>.\<close>

definition markDivergencePromptShown :: "Db \<Rightarrow> string \<Rightarrow> int \<Rightarrow> Db" where
  "markDivergencePromptShown db uid now =
     db\<lparr>userBlendConfigTable :=
          map (\<lambda>c. if ubcUserId c = uid
                   then c\<lparr>lastDivergencePrompt := Some now,
                          divergencePromptCount := divergencePromptCount c + 1\<rparr>
                   else c) (userBlendConfigTable db)\<rparr>"

subsection \<open>Recording an event\<close>

definition trackBehavior :: "Db \<Rightarrow> string \<Rightarrow> int \<Rightarrow> InteractionType \<Rightarrow> Db" where
  "trackBehavior db uid bid t =
     (case List.find (\<lambda>b. bountyId b = bid) (bountyTable db) of
        None \<Rightarrow> db
      | Some bountyData \<Rightarrow>
          (let bountyTags = map btrTagId (filter (\<lambda>bt. btrBountyId bt = bid) (bountyTagTable db));
               db1 = db\<lparr>userBehaviorTagTable :=
                          fold (\<lambda>tid tbl. updateTagBehavior tbl uid tid t) bountyTags
                            (userBehaviorTagTable db)\<rparr>;
               db2 = db1\<lparr>userBehaviorPriceTable :=
                            updatePriceBehavior (userBehaviorPriceTable db1) uid (price bountyData) t\<rparr>;
               db3 = db2\<lparr>userBlendConfigTable := updateBlendConfig (userBlendConfigTable db2) uid\<rparr>
           in checkDivergence db3 uid))"

text \<open>The behavior-event step relation: one recorded event.\<close>

inductive behaviorStep :: "Db \<Rightarrow> Db \<Rightarrow> bool" where
  track: "behaviorStep db (trackBehavior db uid bid t)"

subsection \<open>Responding to a divergence prompt (the router's respondToDivergence)\<close>

datatype DivergenceAction = add_skill | remove_skill | keep | dismiss

definition respondToDivergence ::
  "Db \<Rightarrow> string \<Rightarrow> int \<Rightarrow> DivergenceAction \<Rightarrow> int option \<Rightarrow> int \<Rightarrow> Db" where
  "respondToDivergence db uid tid action newScore now =
     (let db1 = (if action = add_skill \<and> \<not> falsy newScore
                 then (case newScore of
                         None \<Rightarrow> db
                       | Some n \<Rightarrow>
                           db\<lparr>userTagTable := userTagTable db @
                                [\<lparr>utUserId = uid, utTagId = tid, utScore = n,
                                  utSource = ''divergence_prompt''\<rparr>]\<rparr>)
                 else if action = remove_skill
                 then db\<lparr>userTagTable :=
                            filter (\<lambda>t. \<not> (utUserId t = uid \<and> utTagId t = tid)) (userTagTable db)\<rparr>
                 else db);
          db2 = clearDivergence db1 uid tid
      in markDivergencePromptShown db2 uid now)"

section \<open>Example data\<close>

definition exBounty :: "int \<Rightarrow> Tier \<Rightarrow> real \<Rightarrow> real \<Rightarrow> BountyData" where
  "exBounty i t p e =
     \<lparr>bountyId = i, title = ''bounty'', description = '''', price = p, tier = t,
      status = open_status, views = 0, submissions = 0, likes = 0, engagementScore = e\<rparr>"

definition exMutual :: "string \<Rightarrow> Layer \<Rightarrow> real \<Rightarrow> MutualConnection" where
  "exMutual u l s = \<lparr>mutualId = u, layer = l, strength = s\<rparr>"

definition exInput :: RecommendationInput where
  "exInput =
     \<lparr>userId = ''u'',
      userTags = [\<lparr>tagId = 1, tagName = ''typescript'', score = 5\<rparr>],
      userProfile = \<lparr>avgPriceViewed = 500, userEngagementScore = 0, accessTier = middle\<rparr>,
      mutuals = []\<rparr>"

definition exTagMap :: "int \<rightharpoonup> BountyTag list" where
  "exTagMap = [1 \<mapsto> [\<lparr>btTagId = 1, weight = 1.0\<rparr>]]"

definition exScored :: "int \<Rightarrow> real \<Rightarrow> real \<Rightarrow> real \<Rightarrow> real \<Rightarrow> ScoredBounty" where
  "exScored i r s p f =
     \<lparr>bounty = exBounty i middle 600 0, relevanceScore = r, socialBoost = s,
      priceAffinity = p, finalScore = f\<rparr>"




definition exBlendConfig :: "int \<Rightarrow> UserBlendConfig" where
  "exBlendConfig n =
     \<lparr>ubcUserId = ''u'', explicitWeight = 0.8, implicitWeight = 0.2, totalInteractions = n,
      lastDivergencePrompt = None, divergencePromptCount = 0\<rparr>"

definition exDb :: Db where
  "exDb =
     \<lparr>bountyTable = [exBounty 7 basic 100 0],
      bountyTagTable = [\<lparr>btrBountyId = 7, btrTagId = 1, btrWeight = 1\<rparr>],
      userTagTable = [],
      userBehaviorTagTable = [],
      userBehaviorPriceTable = [],
      userBlendConfigTable = [exBlendConfig 0]\<rparr>"

definition exDbFlagged :: Db where
  "exDbFlagged =
     \<lparr>bountyTable = [exBounty 7 basic 100 0],
      bountyTagTable = [\<lparr>btrBountyId = 7, btrTagId = 1, btrWeight = 1\<rparr>],
      userTagTable = [\<lparr>utUserId = ''u'', utTagId = 1, utScore = 3, utSource = ''manual''\<rparr>],
      userBehaviorTagTable =
        [(defaultBehaviorTag ''u'' 1)
           \<lparr>likeCount := 25, likeScore := 10, implicitScore := 2, divergenceDetected := True\<rparr>],
      userBehaviorPriceTable = [],
      userBlendConfigTable = [exBlendConfig 25]\<rparr>"

definition exMutualRow :: "string \<Rightarrow> string \<Rightarrow> real \<Rightarrow> MutualRow" where
  "exMutualRow u m s = \<lparr>mUserId = u, mMutualId = m, mLayer = 1, mStrength = s\<rparr>"

text \<open>A stored edge from \<open>u\<close> to itself, beside an edge to \<open>a\<close>.\<close>

definition exSelfEdge :: "MutualRow list" where
  "exSelfEdge = [exMutualRow ''u'' ''u'' 1, exMutualRow ''u'' ''a'' 1]"

text \<open>
  A diamond with a tail: \<open>u\<close> knows \<open>a\<close> and \<open>b\<close>, who both know \<open>c\<close>, who knows
  \<open>d\<close>.
\<close>

definition exDiamond :: "MutualRow list" where
  "exDiamond =
     [exMutualRow ''u'' ''a'' 1, exMutualRow ''u'' ''b'' 1,
      exMutualRow ''a'' ''c'' 1, exMutualRow ''b'' ''c'' 0.8,
      exMutualRow ''c'' ''d'' 1]"

section \<open>Relations used in the properties\<close>

text \<open>
  \<open>flagsKept tbl tbl'\<close>: every row of \<open>tbl\<close> is still at its position in \<open>tbl'\<close>, for
  the same user and tag, and its divergence flag has not gone from true to false.
\<close>

definition flagsKept :: "UserBehaviorTag list \<Rightarrow> UserBehaviorTag list \<Rightarrow> bool" where
  "flagsKept tbl tbl' \<longleftrightarrow>
     length tbl \<le> length tbl' \<and>
     (\<forall>i<length tbl.
        ubtUserId (tbl' ! i) = ubtUserId (tbl ! i) \<and> ubtTagId (tbl' ! i) = ubtTagId (tbl ! i) \<and>
        (divergenceDetected (tbl ! i) \<longrightarrow> divergenceDetected (tbl' ! i)))"

text \<open>
  The stored edges behind the three layers of \<open>getMutualsThreeLayers\<close>: the rows of
  the user, the rows out of a layer-1 id that pass the layer-2 test, and the rows out of
  a layer-2 id that pass the layer-3 test.
\<close>

definition layer1Rows :: "MutualRow list \<Rightarrow> string \<Rightarrow> MutualRow list" where
  "layer1Rows tbl uid = filter (\<lambda>m. mUserId m = uid) tbl"

definition layer2Rows :: "MutualRow list \<Rightarrow> string \<Rightarrow> MutualRow list" where
  "layer2Rows tbl uid =
     filter (\<lambda>m. mMutualId m \<notin> mMutualId ` set (layer1Rows tbl uid) \<and> mMutualId m \<noteq> uid)
       (filter (\<lambda>m. mUserId m \<in> mMutualId ` set (layer1Rows tbl uid) \<and> mMutualId m \<noteq> uid) tbl)"

definition layer3Rows :: "MutualRow list \<Rightarrow> string \<Rightarrow> MutualRow list" where
  "layer3Rows tbl uid =
     filter (\<lambda>m. mMutualId m \<notin> mMutualId ` set (layer1Rows tbl uid)
                 \<and> mMutualId m \<notin> mMutualId ` set (layer2Rows tbl uid) \<and> mMutualId m \<noteq> uid)
       (filter (\<lambda>m. mUserId m \<in> mMutualId ` set (layer2Rows tbl uid) \<and> mMutualId m \<noteq> uid) tbl)"

section \<open>Verified properties\<close>

subsection \<open>Rounding\<close>









text \<open>The equations that evaluate a rounded operation on numerals.\<close>

lemmas rnd_eval = rnd_def normDown.simps normUp.simps rne_def fadd_def fmul_def fdiv_def


subsection \<open>Fields of the example data\<close>

lemma exBounty_sel:
  "bountyId (exBounty i t p e) = i" "tier (exBounty i t p e) = t"
  "price (exBounty i t p e) = p" "engagementScore (exBounty i t p e) = e"
  by (simp_all add: exBounty_def)

lemma exScored_sel:
  "relevanceScore (exScored i r s p f) = r" "finalScore (exScored i r s p f) = f"
  "socialBoost (exScored i r s p f) = s" "priceAffinity (exScored i r s p f) = p"
  "bounty (exScored i r s p f) = exBounty i middle 600 0"
  by (simp_all add: exScored_def)

subsection \<open>The relevance model\<close>


















text \<open>
  Rounding also works downwards: with score 1.5 and two tags of weight 0.7 the exact value
  is 3 and the computed one is \<open>3 - 2^-51\<close>, printed 2.9999999999999996.
\<close>

lemma computeRelevance_rounds_below:
  "computeRelevanceScore [\<lparr>tagId = 1, tagName = ''a'', score = 1.5\<rparr>, \<lparr>tagId = 2, tagName = ''b'', score = 1.5\<rparr>]
     [\<lparr>btTagId = 1, weight = rnd 0.7\<rparr>, \<lparr>btTagId = 2, weight = rnd 0.7\<rparr>] = 3 - 1 / 2 ^ 51"
proof -
  have w: "rnd 0.7 = 3152519739159347 / 2 ^ 52"
    by (simp add: rnd_eval)
  show ?thesis
    by (simp add: computeRelevanceScore_def userTagMap_def w) (simp add: rnd_eval)
qed

subsection \<open>The social boost\<close>





subsection \<open>The access-tier filter\<close>

lemma filterByAccessTier_set:
  "set (filterByAccessTier bs t) = {b \<in> set bs. tierOrder (tier b) \<le> tierOrder t}"
  by (auto simp add: filterByAccessTier_def)

lemma tierOrder_le_high: "tierOrder x \<le> tierOrder high"
  by (cases x) simp_all

text \<open>
  Claim C9, as the code has it. \<open>filterByAccessTier\<close> keeps exactly the bounties
  whose tier level is at most the user's; a basic-tier user never gets a middle- or
  high-tier bounty; the basic-tier result is a subset of the middle-tier result, which
  is a subset of the high-tier result. The inclusions are strict exactly when the list
  holds a middle-tier bounty (basic versus middle) and a high-tier bounty (middle versus
  high); they are not strict for every list.
\<close>

theorem filterByAccessTier_monotone:
  "filterByAccessTier bs t = filter (\<lambda>b. tierOrder (tier b) \<le> tierOrder t) bs
   \<and> (\<forall>b\<in>set (filterByAccessTier bs basic). tier b \<noteq> middle \<and> tier b \<noteq> high)
   \<and> set (filterByAccessTier bs basic) \<subseteq> set (filterByAccessTier bs middle)
   \<and> set (filterByAccessTier bs middle) \<subseteq> set (filterByAccessTier bs high)
   \<and> (set (filterByAccessTier bs basic) \<subset> set (filterByAccessTier bs middle)
        \<longleftrightarrow> (\<exists>b\<in>set bs. tier b = middle))
   \<and> (set (filterByAccessTier bs middle) \<subset> set (filterByAccessTier bs high)
        \<longleftrightarrow> (\<exists>b\<in>set bs. tier b = high))"
proof -
  have A: "filterByAccessTier bs t = filter (\<lambda>b. tierOrder (tier b) \<le> tierOrder t) bs"
    by (simp add: filterByAccessTier_def)
  have B: "\<forall>b\<in>set (filterByAccessTier bs basic). tier b \<noteq> middle \<and> tier b \<noteq> high"
    by (auto simp add: filterByAccessTier_set)
  have C: "set (filterByAccessTier bs basic) \<subseteq> set (filterByAccessTier bs middle)"
    by (auto simp add: filterByAccessTier_set)
  have D: "set (filterByAccessTier bs middle) \<subseteq> set (filterByAccessTier bs high)"
    by (auto simp add: filterByAccessTier_set tierOrder_le_high)
  have E: "set (filterByAccessTier bs basic) \<subset> set (filterByAccessTier bs middle)
        \<longleftrightarrow> (\<exists>b\<in>set bs. tier b = middle)"
  proof
    assume "set (filterByAccessTier bs basic) \<subset> set (filterByAccessTier bs middle)"
    then obtain b where "b \<in> set (filterByAccessTier bs middle)" "b \<notin> set (filterByAccessTier bs basic)"
      by blast
    then have "b \<in> set bs" "tier b \<noteq> high" "tier b \<noteq> basic"
      by (cases "tier b"; simp add: filterByAccessTier_set)+
    then show "\<exists>b\<in>set bs. tier b = middle" by (cases "tier b") auto
  next
    assume "\<exists>b\<in>set bs. tier b = middle"
    then obtain b where "b \<in> set bs" "tier b = middle" by blast
    then have "b \<in> set (filterByAccessTier bs middle)" "b \<notin> set (filterByAccessTier bs basic)"
      by (simp_all add: filterByAccessTier_set)
    with C show "set (filterByAccessTier bs basic) \<subset> set (filterByAccessTier bs middle)"
      by blast
  qed
  have F: "set (filterByAccessTier bs middle) \<subset> set (filterByAccessTier bs high)
        \<longleftrightarrow> (\<exists>b\<in>set bs. tier b = high)"
  proof
    assume "set (filterByAccessTier bs middle) \<subset> set (filterByAccessTier bs high)"
    then obtain b where "b \<in> set (filterByAccessTier bs high)" "b \<notin> set (filterByAccessTier bs middle)"
      by blast
    then have "b \<in> set bs" "tier b = high"
      by (cases "tier b"; simp add: filterByAccessTier_set)+
    then show "\<exists>b\<in>set bs. tier b = high" by blast
  next
    assume "\<exists>b\<in>set bs. tier b = high"
    then obtain b where "b \<in> set bs" "tier b = high" by blast
    then have "b \<in> set (filterByAccessTier bs high)" "b \<notin> set (filterByAccessTier bs middle)"
      by (simp_all add: filterByAccessTier_set)
    with D show "set (filterByAccessTier bs middle) \<subset> set (filterByAccessTier bs high)"
      by blast
  qed
  from A B C D E F show ?thesis by blast
qed

theorem filterByAccessTier_monotone_witness:
  "filterByAccessTier [exBounty 1 basic 100 0, exBounty 2 middle 600 0] basic = [exBounty 1 basic 100 0]
   \<and> tier (exBounty 1 basic 100 0) \<noteq> middle \<and> tier (exBounty 1 basic 100 0) \<noteq> high
   \<and> set (filterByAccessTier [exBounty 1 basic 100 0, exBounty 2 middle 600 0] basic)
       \<subset> set (filterByAccessTier [exBounty 1 basic 100 0, exBounty 2 middle 600 0] middle)"
proof -
  note T = filterByAccessTier_monotone [of "[exBounty 1 basic 100 0, exBounty 2 middle 600 0]" basic]
  have E: "filterByAccessTier [exBounty 1 basic 100 0, exBounty 2 middle 600 0] basic
             = [exBounty 1 basic 100 0]"
    by (simp add: filterByAccessTier_def exBounty_def)
  have M: "\<exists>b\<in>set [exBounty 1 basic 100 0, exBounty 2 middle 600 0]. tier b = middle"
    by (simp add: exBounty_def)
  from T M have S: "set (filterByAccessTier [exBounty 1 basic 100 0, exBounty 2 middle 600 0] basic)
       \<subset> set (filterByAccessTier [exBounty 1 basic 100 0, exBounty 2 middle 600 0] middle)"
    by blast
  from T have "\<forall>b\<in>set (filterByAccessTier [exBounty 1 basic 100 0, exBounty 2 middle 600 0] basic).
         tier b \<noteq> middle \<and> tier b \<noteq> high"
    by blast
  with E have B: "tier (exBounty 1 basic 100 0) \<noteq> middle \<and> tier (exBounty 1 basic 100 0) \<noteq> high"
    by simp
  from E B S show ?thesis by blast
qed

text \<open>
  The inclusion is not strict for every list: with a single basic-tier bounty the
  basic-tier and the middle-tier results are the same.
\<close>

theorem filterByAccessTier_strict_counterexample:
  "\<not> (set (filterByAccessTier [exBounty 1 basic 100 0] basic)
        \<subset> set (filterByAccessTier [exBounty 1 basic 100 0] middle))"
  by (simp add: filterByAccessTier_def exBounty_def)

subsection \<open>Scoring one bounty\<close>




lemma scoreBounty_fields:
  "bounty (scoreBounty input tm mi b) = b"
  "relevanceScore (scoreBounty input tm mi b) = computeRelevanceScore (userTags input) (orEmpty (tm (bountyId b)))"
  "socialBoost (scoreBounty input tm mi b) = computeSocialBoost (bountyId b) (mutuals input) mi"
  "priceAffinity (scoreBounty input tm mi b) =
     computePriceAffinityTierAware (price b) (tier b) (avgPriceViewed (userProfile input)) (accessTier (userProfile input))"
  by (simp_all add: scoreBounty_def Let_def)

lemma scoreBounty_formula:
  "finalScore (scoreBounty input tm mi b) =
     fadd (fadd (fadd
       (fmul (fmul (fdiv (relevanceScore (scoreBounty input tm mi b)) 10) (rnd 0.55)) 10)
       (fmul (fmul (fdiv (socialBoost (scoreBounty input tm mi b)) 2) (rnd 0.15)) 10))
       (fmul (fmul (priceAffinity (scoreBounty input tm mi b)) (rnd 0.20)) 10))
       (fmul (fmul (min (fdiv (engagementScore (bounty (scoreBounty input tm mi b))) 10) 1) (rnd 0.10)) 10)"
  by (simp add: scoreBounty_def Let_def WEIGHTS_RELEVANCE_def WEIGHTS_SOCIAL_def
        WEIGHTS_PRICE_def WEIGHTS_ENGAGEMENT_def)



lemma scoreAllBounties_unfiltered:
  "scoreAllBounties input allB tm mi False =
     map (scoreBounty input tm mi) (filterByAccessTier allB (accessTier (userProfile input)))"
  by (simp add: scoreAllBounties_def Let_def)


subsection \<open>Ranking and selection\<close>

lemma sortByFinalScore_set: "set (sortByFinalScore xs) = set xs"
  by (simp add: sortByFinalScore_def)

lemma sortByFinalScore_length: "length (sortByFinalScore xs) = length xs"
  by (simp add: sortByFinalScore_def)

lemma sortByFinalScore_Nil: "sortByFinalScore xs = [] \<longleftrightarrow> xs = []"
  using sortByFinalScore_length [of xs] by auto

lemma sortByFinalScore_descending:
  assumes "i \<le> j" and "j < length (sortByFinalScore xs)"
  shows "finalScore (sortByFinalScore xs ! j) \<le> finalScore (sortByFinalScore xs ! i)"
proof -
  have "sorted (map (\<lambda>sb. - finalScore sb) (sortByFinalScore xs))"
    by (simp add: sortByFinalScore_def)
  with assms have "map (\<lambda>sb. - finalScore sb) (sortByFinalScore xs) ! i
                 \<le> map (\<lambda>sb. - finalScore sb) (sortByFinalScore xs) ! j"
    by (intro sorted_nth_mono) simp_all
  with assms show ?thesis by simp
qed

lemma sortByFinalScore_head_max:
  assumes "sortByFinalScore xs = p # rest" and "sb \<in> set xs"
  shows "finalScore sb \<le> finalScore p"
proof -
  from assms(2) have "sb \<in> set (sortByFinalScore xs)" by (simp only: sortByFinalScore_set)
  then obtain j where j: "j < length (sortByFinalScore xs)" "sortByFinalScore xs ! j = sb"
    by (auto simp add: in_set_conv_nth)
  from sortByFinalScore_descending [of 0 j xs] j assms show ?thesis by simp
qed


text \<open>
  On a list whose entries all have relevance at least 3, as the list
  \<open>getRecommendations\<close> passes, no entry is a stretch candidate.
\<close>

lemma selectStretchBounty_relevant_None:
  assumes "\<forall>sb\<in>set xs. relevanceScore sb \<ge> 3"
  shows "selectStretchBounty xs = None"
proof -
  have "filter (\<lambda>sb.
            let isLowRelevance = relevanceScore sb < 3.0;
                topScore = (case firstOpt xs of
                              None \<Rightarrow> 1
                            | Some t \<Rightarrow> if finalScore t = 0 then 1 else finalScore t);
                isDecentOverall = finalScore sb > fmul topScore (rnd 0.2)
            in isLowRelevance \<and> isDecentOverall) xs = []"
    using assms by (auto simp add: filter_empty_conv Let_def)
  then show ?thesis
    by (simp add: selectStretchBounty_def sortByFinalScore_def)
qed

lemma getRecommendations_fallback_eq:
  assumes "\<forall>sb\<in>set (scoreAllBounties input allB tm mi False). relevanceScore sb < 3"
  shows "getRecommendations input allB tm mi =
     (case sortByFinalScore (scoreAllBounties input allB tm mi False) of
        [] \<Rightarrow> Inl NoBountiesAvailable
      | fallback # rest \<Rightarrow>
          Inr \<lparr>primary = fallback,
               secondary = secondOr (fallback # rest) fallback,
               debug = \<lparr>totalCandidates = length allB,
                        filteredByTier = length (filterByAccessTier allB (accessTier (userProfile input))),
                        filteredByRelevance = 0,
                        topRelevanceScores = map relevanceScore (take 5 (fallback # rest))\<rparr>\<rparr>)"
proof -
  have "filter (\<lambda>sb. relevanceScore sb \<ge> MIN_RELEVANCE_THRESHOLD)
          (scoreAllBounties input allB tm mi False) = []"
    using assms by (auto simp add: filter_empty_conv MIN_RELEVANCE_THRESHOLD_def)
  then show ?thesis
    by (simp add: getRecommendations_def Let_def scoreAllBounties_unfiltered sortByFinalScore_def
          split: list.splits)
qed

lemma getRecommendations_normal_eq:
  assumes "sortByFinalScore (filter (\<lambda>sb. relevanceScore sb \<ge> 3)
             (scoreAllBounties input allB tm mi False)) = p # rest"
  shows "getRecommendations input allB tm mi =
          Inr \<lparr>primary = p,
               secondary = secondOr (p # rest) p,
               debug = \<lparr>totalCandidates = length allB,
                        filteredByTier = length (filterByAccessTier allB (accessTier (userProfile input))),
                        filteredByRelevance = length (p # rest),
                        topRelevanceScores = map relevanceScore (take 5 (p # rest))\<rparr>\<rparr>"
proof -
  have "\<forall>sb\<in>set (p # rest). relevanceScore sb \<ge> 3"
    using sortByFinalScore_set [of "filter (\<lambda>sb. relevanceScore sb \<ge> 3)
             (scoreAllBounties input allB tm mi False)"] assms by auto
  then have "selectStretchBounty (p # rest) = None"
    by (rule selectStretchBounty_relevant_None)
  with assms show ?thesis
    by (simp add: getRecommendations_def Let_def scoreAllBounties_unfiltered
          MIN_RELEVANCE_THRESHOLD_def)
qed

subsection \<open>The end-to-end scenario\<close>

lemma ex_relevance:
  "computeRelevanceScore (userTags exInput) (orEmpty (exTagMap 1)) = 10"
  by (simp add: computeRelevanceScore_def userTagMap_def exInput_def exTagMap_def rnd_eval)

lemma ex_social: "computeSocialBoost i (mutuals exInput) Map.empty = 0"
  by (simp add: computeSocialBoost_def exInput_def)

lemma ex_ratio: "fdiv 600 500 = 5404319552844595 / 2 ^ 52"
  by (simp add: rnd_eval)

lemma ex_history: "computePriceHistoryScore 600 500 = 1"
  by (simp add: computePriceHistoryScore_def ex_ratio)

lemma ex_bonus: "fadd 1 (rnd 0.1) = 4953959590107546 / 2 ^ 52"
  by (simp add: rnd_eval)

lemma ex_price:
  "computePriceAffinityTierAware 600 middle (avgPriceViewed (userProfile exInput)) (accessTier (userProfile exInput)) = 1"
  by (simp add: computePriceAffinityTierAware_def exInput_def ex_history ex_bonus)

lemma final_10_0_1_0:
  "fadd (fadd (fadd
       (fmul (fmul (fdiv 10 10) (rnd 0.55)) 10)
       (fmul (fmul (fdiv 0 2) (rnd 0.15)) 10))
       (fmul (fmul 1 (rnd 0.20)) 10))
       (fmul (fmul (min (fdiv 0 10) 1) (rnd 0.10)) 10) = 7.5"
  by (simp add: rnd_eval)

lemma final_0_0_1_0:
  "fadd (fadd (fadd
       (fmul (fmul (fdiv 0 10) (rnd 0.55)) 10)
       (fmul (fmul (fdiv 0 2) (rnd 0.15)) 10))
       (fmul (fmul 1 (rnd 0.20)) 10))
       (fmul (fmul (min (fdiv 0 10) 1) (rnd 0.10)) 10) = 2"
  by (simp add: rnd_eval)

lemma final_0_0_1_10:
  "fadd (fadd (fadd
       (fmul (fmul (fdiv 0 10) (rnd 0.55)) 10)
       (fmul (fmul (fdiv 0 2) (rnd 0.15)) 10))
       (fmul (fmul 1 (rnd 0.20)) 10))
       (fmul (fmul (min (fdiv 10 10) 1) (rnd 0.10)) 10) = 3"
  by (simp add: rnd_eval)

lemma scoreBounty_eq:
  "scoreBounty input tm mi b =
     \<lparr>bounty = b,
      relevanceScore = relevanceScore (scoreBounty input tm mi b),
      socialBoost = socialBoost (scoreBounty input tm mi b),
      priceAffinity = priceAffinity (scoreBounty input tm mi b),
      finalScore = finalScore (scoreBounty input tm mi b)\<rparr>"
  by (simp add: scoreBounty_def Let_def)

lemma ex_score1:
  "scoreBounty exInput exTagMap Map.empty (exBounty 1 middle 600 0) = exScored 1 10 0 1 7.5"
proof -
  let ?sb = "scoreBounty exInput exTagMap Map.empty (exBounty 1 middle 600 0)"
  have r: "relevanceScore ?sb = 10"
    by (simp add: scoreBounty_fields exBounty_sel ex_relevance)
  have s: "socialBoost ?sb = 0"
    by (simp add: scoreBounty_fields ex_social)
  have p: "priceAffinity ?sb = 1"
    by (simp add: scoreBounty_fields exBounty_sel ex_price)
  have e: "engagementScore (bounty ?sb) = 0"
    by (simp add: scoreBounty_fields exBounty_sel)
  have f: "finalScore ?sb = 7.5"
    unfolding scoreBounty_formula r s p e by (rule final_10_0_1_0)
  show ?thesis
    by (subst scoreBounty_eq) (simp add: r s p f exScored_def)
qed

lemma ex_accessTier: "accessTier (userProfile exInput) = middle"
  by (simp add: exInput_def)




subsection \<open>The final score\<close>









subsection \<open>Primary and secondary picks\<close>

lemma ex_relevance_untagged:
  "computeRelevanceScore (userTags exInput) (orEmpty (exTagMap 2)) = 0"
  "computeRelevanceScore (userTags exInput) (orEmpty (exTagMap 3)) = 0"
  by (simp_all add: computeRelevanceScore_def exTagMap_def)

lemma ex_score2:
  "scoreBounty exInput exTagMap Map.empty (exBounty 2 middle 600 0) = exScored 2 0 0 1 2"
proof -
  let ?sb = "scoreBounty exInput exTagMap Map.empty (exBounty 2 middle 600 0)"
  have r: "relevanceScore ?sb = 0"
    by (simp add: scoreBounty_fields exBounty_sel ex_relevance_untagged)
  have s: "socialBoost ?sb = 0"
    by (simp add: scoreBounty_fields ex_social)
  have p: "priceAffinity ?sb = 1"
    by (simp add: scoreBounty_fields exBounty_sel ex_price)
  have e: "engagementScore (bounty ?sb) = 0"
    by (simp add: scoreBounty_fields exBounty_sel)
  have f: "finalScore ?sb = 2"
    unfolding scoreBounty_formula r s p e by (rule final_0_0_1_0)
  show ?thesis
    by (subst scoreBounty_eq) (simp add: r s p f exScored_def)
qed

lemma ex_score3:
  "scoreBounty exInput exTagMap Map.empty (exBounty 3 middle 600 10) =
     \<lparr>bounty = exBounty 3 middle 600 10, relevanceScore = 0, socialBoost = 0, priceAffinity = 1,
      finalScore = 3\<rparr>"
proof -
  let ?sb = "scoreBounty exInput exTagMap Map.empty (exBounty 3 middle 600 10)"
  have r: "relevanceScore ?sb = 0"
    by (simp add: scoreBounty_fields exBounty_sel ex_relevance_untagged)
  have s: "socialBoost ?sb = 0"
    by (simp add: scoreBounty_fields ex_social)
  have p: "priceAffinity ?sb = 1"
    by (simp add: scoreBounty_fields exBounty_sel ex_price)
  have e: "engagementScore (bounty ?sb) = 10"
    by (simp add: scoreBounty_fields exBounty_sel)
  have f: "finalScore ?sb = 3"
    unfolding scoreBounty_formula r s p e by (rule final_0_0_1_10)
  show ?thesis
    by (subst scoreBounty_eq) (simp add: r s p f)
qed

lemma ex_all12:
  "scoreAllBounties exInput [exBounty 1 middle 600 0, exBounty 2 middle 600 0] exTagMap Map.empty False
     = [exScored 1 10 0 1 7.5, exScored 2 0 0 1 2]"
  by (simp add: scoreAllBounties_unfiltered filterByAccessTier_def ex_accessTier exBounty_sel
        ex_score1 ex_score2)

text \<open>
  Claim C2, evaluated. Two middle-tier bounties priced 600 are accessible to the example
  user: bounty 1 carries the user's tag (relevance 10, final score 7.5), bounty 2 has
  no tag (relevance 0, final score 2). Bounty 2 has relevance below 3 and a final score
  above 0.2 * 7.5 = 1.5, yet the secondary pick is the primary itself:
  \<open>selectStretchBounty\<close> only sees the list already filtered to relevance at least 3.
\<close>

theorem getRecommendations_stretch_unreachable:
  "scoreAllBounties exInput [exBounty 1 middle 600 0, exBounty 2 middle 600 0] exTagMap Map.empty False
     = [exScored 1 10 0 1 7.5, exScored 2 0 0 1 2]
   \<and> relevanceScore (exScored 2 0 0 1 2) < 3.0
   \<and> finalScore (exScored 2 0 0 1 2) > 0.2 * finalScore (exScored 1 10 0 1 7.5)
   \<and> getRecommendations exInput [exBounty 1 middle 600 0, exBounty 2 middle 600 0] exTagMap Map.empty =
       Inr \<lparr>primary = exScored 1 10 0 1 7.5, secondary = exScored 1 10 0 1 7.5,
            debug = \<lparr>totalCandidates = 2, filteredByTier = 2, filteredByRelevance = 1,
                     topRelevanceScores = [10]\<rparr>\<rparr>"
proof -
  have "sortByFinalScore (filter (\<lambda>sb. relevanceScore sb \<ge> 3)
          (scoreAllBounties exInput [exBounty 1 middle 600 0, exBounty 2 middle 600 0] exTagMap Map.empty False))
        = exScored 1 10 0 1 7.5 # []"
    by (simp add: ex_all12 exScored_sel sortByFinalScore_def)
  from getRecommendations_normal_eq [OF this]
  have "getRecommendations exInput [exBounty 1 middle 600 0, exBounty 2 middle 600 0] exTagMap Map.empty =
       Inr \<lparr>primary = exScored 1 10 0 1 7.5, secondary = exScored 1 10 0 1 7.5,
            debug = \<lparr>totalCandidates = 2, filteredByTier = 2, filteredByRelevance = 1,
                     topRelevanceScores = [10]\<rparr>\<rparr>"
    by (simp add: filterByAccessTier_def ex_accessTier exBounty_sel exScored_sel)
  then show ?thesis by (simp add: ex_all12 exScored_sel)
qed

text \<open>
  Claim C3. \<open>getRecommendations\<close> fails exactly when no bounty passes the tier filter.
  When at least one bounty is accessible and every accessible bounty has relevance below
  3, it returns the first entry of the unfiltered scored list sorted by final score
  (descending) as primary and the second entry of that sorted list, or the primary again
  when the list has one entry only, as secondary, with \<open>filteredByRelevance = 0\<close>; and a
  result has
  \<open>filteredByRelevance = 0\<close> only in that case.
\<close>

theorem getRecommendations_fallback:
  "(getRecommendations input allB tm mi = Inl NoBountiesAvailable
      \<longleftrightarrow> filterByAccessTier allB (accessTier (userProfile input)) = [])
   \<and> (filterByAccessTier allB (accessTier (userProfile input)) \<noteq> []
        \<and> (\<forall>sb\<in>set (scoreAllBounties input allB tm mi False). relevanceScore sb < 3) \<longrightarrow>
      (\<exists>p rest.
         sortByFinalScore (scoreAllBounties input allB tm mi False) = p # rest
         \<and> getRecommendations input allB tm mi =
             Inr \<lparr>primary = p,
                  secondary = (case rest of [] \<Rightarrow> p | s # rest' \<Rightarrow> s),
                  debug = \<lparr>totalCandidates = length allB,
                           filteredByTier = length (filterByAccessTier allB (accessTier (userProfile input))),
                           filteredByRelevance = 0,
                           topRelevanceScores = map relevanceScore (take 5 (p # rest))\<rparr>\<rparr>
         \<and> set (p # rest) = set (scoreAllBounties input allB tm mi False)
         \<and> (\<forall>i j. i \<le> j \<and> j < length (p # rest) \<longrightarrow>
               finalScore ((p # rest) ! j) \<le> finalScore ((p # rest) ! i))))
   \<and> (\<forall>out. getRecommendations input allB tm mi = Inr out \<longrightarrow>
        (filteredByRelevance (debug out) = 0
           \<longleftrightarrow> (\<forall>sb\<in>set (scoreAllBounties input allB tm mi False). relevanceScore sb < 3)))"
proof -
  let ?acc = "filterByAccessTier allB (accessTier (userProfile input))"
  let ?all = "scoreAllBounties input allB tm mi False"
  let ?flt = "sortByFinalScore (filter (\<lambda>sb. relevanceScore sb \<ge> 3) ?all)"
  have all_Nil: "?all = [] \<longleftrightarrow> ?acc = []"
    by (simp add: scoreAllBounties_unfiltered)
  have low_iff: "?flt = [] \<longleftrightarrow> (\<forall>sb\<in>set ?all. relevanceScore sb < 3)"
    by (auto simp add: sortByFinalScore_Nil filter_empty_conv)
  have A: "getRecommendations input allB tm mi = Inl NoBountiesAvailable \<longleftrightarrow> ?acc = []"
  proof (cases ?flt)
    case Nil
    then have low: "\<forall>sb\<in>set ?all. relevanceScore sb < 3" by (simp only: low_iff)
    show ?thesis
      unfolding getRecommendations_fallback_eq [OF low]
      using all_Nil sortByFinalScore_Nil [of ?all]
      by (auto split: list.splits)
  next
    case (Cons p rest)
    then have "?all \<noteq> []" using low_iff by auto
    then have "?acc \<noteq> []" using all_Nil by simp
    then show ?thesis
      unfolding getRecommendations_normal_eq [OF Cons] by simp
  qed
  have B: "?acc \<noteq> [] \<and> (\<forall>sb\<in>set ?all. relevanceScore sb < 3) \<longrightarrow>
      (\<exists>p rest.
         sortByFinalScore ?all = p # rest
         \<and> getRecommendations input allB tm mi =
             Inr \<lparr>primary = p,
                  secondary = (case rest of [] \<Rightarrow> p | s # rest' \<Rightarrow> s),
                  debug = \<lparr>totalCandidates = length allB,
                           filteredByTier = length ?acc,
                           filteredByRelevance = 0,
                           topRelevanceScores = map relevanceScore (take 5 (p # rest))\<rparr>\<rparr>
         \<and> set (p # rest) = set ?all
         \<and> (\<forall>i j. i \<le> j \<and> j < length (p # rest) \<longrightarrow>
               finalScore ((p # rest) ! j) \<le> finalScore ((p # rest) ! i)))"
  proof
    assume h: "?acc \<noteq> [] \<and> (\<forall>sb\<in>set ?all. relevanceScore sb < 3)"
    then have low: "\<forall>sb\<in>set ?all. relevanceScore sb < 3" by blast
    from h have "sortByFinalScore ?all \<noteq> []"
      using all_Nil sortByFinalScore_Nil [of ?all] by simp
    then obtain p rest where s: "sortByFinalScore ?all = p # rest"
      by (cases "sortByFinalScore ?all") auto
    have 1: "getRecommendations input allB tm mi =
             Inr \<lparr>primary = p,
                  secondary = (case rest of [] \<Rightarrow> p | s # rest' \<Rightarrow> s),
                  debug = \<lparr>totalCandidates = length allB,
                           filteredByTier = length ?acc,
                           filteredByRelevance = 0,
                           topRelevanceScores = map relevanceScore (take 5 (p # rest))\<rparr>\<rparr>"
      unfolding getRecommendations_fallback_eq [OF low] s by (cases rest) simp_all
    have 2: "set (p # rest) = set ?all"
      using sortByFinalScore_set [of ?all] s by simp
    have 3: "\<forall>i j. i \<le> j \<and> j < length (p # rest) \<longrightarrow>
               finalScore ((p # rest) ! j) \<le> finalScore ((p # rest) ! i)"
      using sortByFinalScore_descending [of _ _ ?all] unfolding s by blast
    from s 1 2 3 show "\<exists>p rest.
         sortByFinalScore ?all = p # rest
         \<and> getRecommendations input allB tm mi =
             Inr \<lparr>primary = p,
                  secondary = (case rest of [] \<Rightarrow> p | s # rest' \<Rightarrow> s),
                  debug = \<lparr>totalCandidates = length allB,
                           filteredByTier = length ?acc,
                           filteredByRelevance = 0,
                           topRelevanceScores = map relevanceScore (take 5 (p # rest))\<rparr>\<rparr>
         \<and> set (p # rest) = set ?all
         \<and> (\<forall>i j. i \<le> j \<and> j < length (p # rest) \<longrightarrow>
               finalScore ((p # rest) ! j) \<le> finalScore ((p # rest) ! i))"
      by blast
  qed
  have C: "\<forall>out. getRecommendations input allB tm mi = Inr out \<longrightarrow>
        (filteredByRelevance (debug out) = 0 \<longleftrightarrow> (\<forall>sb\<in>set ?all. relevanceScore sb < 3))"
  proof (intro allI impI)
    fix out assume out: "getRecommendations input allB tm mi = Inr out"
    show "filteredByRelevance (debug out) = 0 \<longleftrightarrow> (\<forall>sb\<in>set ?all. relevanceScore sb < 3)"
    proof (cases ?flt)
      case Nil
      then have low: "\<forall>sb\<in>set ?all. relevanceScore sb < 3" by (simp only: low_iff)
      from out have "filteredByRelevance (debug out) = 0"
        unfolding getRecommendations_fallback_eq [OF low] by (auto split: list.splits)
      with low show ?thesis by blast
    next
      case (Cons p rest)
      then have nlow: "\<not> (\<forall>sb\<in>set ?all. relevanceScore sb < 3)" using low_iff by simp
      from out have "filteredByRelevance (debug out) = length (p # rest)"
        unfolding getRecommendations_normal_eq [OF Cons] by auto
      with nlow show ?thesis by simp
    qed
  qed
  from A B C show ?thesis by blast
qed

theorem getRecommendations_fallback_witness:
  "getRecommendations exInput [exBounty 2 middle 600 0, exBounty 3 middle 600 10] exTagMap Map.empty =
     Inr \<lparr>primary = \<lparr>bounty = exBounty 3 middle 600 10, relevanceScore = 0, socialBoost = 0,
                      priceAffinity = 1, finalScore = 3\<rparr>,
          secondary = exScored 2 0 0 1 2,
          debug = \<lparr>totalCandidates = 2, filteredByTier = 2, filteredByRelevance = 0,
                   topRelevanceScores = [0, 0]\<rparr>\<rparr>
   \<and> getRecommendations exInput [exBounty 2 middle 600 0] exTagMap Map.empty =
     Inr \<lparr>primary = exScored 2 0 0 1 2, secondary = exScored 2 0 0 1 2,
          debug = \<lparr>totalCandidates = 1, filteredByTier = 1, filteredByRelevance = 0,
                   topRelevanceScores = [0]\<rparr>\<rparr>
   \<and> getRecommendations exInput [] exTagMap Map.empty = Inl NoBountiesAvailable"
proof -
  let ?s3 = "\<lparr>bounty = exBounty 3 middle 600 10, relevanceScore = 0, socialBoost = 0,
               priceAffinity = 1, finalScore = 3\<rparr>"
  have all23: "scoreAllBounties exInput [exBounty 2 middle 600 0, exBounty 3 middle 600 10] exTagMap
                 Map.empty False = [exScored 2 0 0 1 2, ?s3]"
    by (simp add: scoreAllBounties_unfiltered filterByAccessTier_def ex_accessTier exBounty_sel
          ex_score2 ex_score3)
  have acc23: "filterByAccessTier [exBounty 2 middle 600 0, exBounty 3 middle 600 10]
                 (accessTier (userProfile exInput))
               = [exBounty 2 middle 600 0, exBounty 3 middle 600 10]"
    by (simp add: filterByAccessTier_def ex_accessTier exBounty_sel)
  have srt23: "sortByFinalScore [exScored 2 0 0 1 2, ?s3] = [?s3, exScored 2 0 0 1 2]"
    by (simp add: sortByFinalScore_def exScored_sel)
  have hyp23: "filterByAccessTier [exBounty 2 middle 600 0, exBounty 3 middle 600 10]
                 (accessTier (userProfile exInput)) \<noteq> []
        \<and> (\<forall>sb\<in>set (scoreAllBounties exInput [exBounty 2 middle 600 0, exBounty 3 middle 600 10]
                         exTagMap Map.empty False). relevanceScore sb < 3)"
    by (simp add: acc23 all23 exScored_sel)
  from getRecommendations_fallback
         [of exInput "[exBounty 2 middle 600 0, exBounty 3 middle 600 10]" exTagMap Map.empty] hyp23
  obtain p rest where
    "sortByFinalScore (scoreAllBounties exInput [exBounty 2 middle 600 0, exBounty 3 middle 600 10]
                         exTagMap Map.empty False) = p # rest"
    and "getRecommendations exInput [exBounty 2 middle 600 0, exBounty 3 middle 600 10] exTagMap Map.empty =
             Inr \<lparr>primary = p,
                  secondary = (case rest of [] \<Rightarrow> p | s # rest' \<Rightarrow> s),
                  debug = \<lparr>totalCandidates = length [exBounty 2 middle 600 0, exBounty 3 middle 600 10],
                           filteredByTier = length (filterByAccessTier
                             [exBounty 2 middle 600 0, exBounty 3 middle 600 10]
                             (accessTier (userProfile exInput))),
                           filteredByRelevance = 0,
                           topRelevanceScores = map relevanceScore (take 5 (p # rest))\<rparr>\<rparr>"
    by blast
  then have 0: "getRecommendations exInput [exBounty 2 middle 600 0, exBounty 3 middle 600 10] exTagMap Map.empty =
     Inr \<lparr>primary = ?s3, secondary = exScored 2 0 0 1 2,
          debug = \<lparr>totalCandidates = 2, filteredByTier = 2, filteredByRelevance = 0,
                   topRelevanceScores = [0, 0]\<rparr>\<rparr>"
    by (auto simp add: all23 srt23 acc23 exScored_sel)
  have all2: "scoreAllBounties exInput [exBounty 2 middle 600 0] exTagMap Map.empty False
                = [exScored 2 0 0 1 2]"
    by (simp add: scoreAllBounties_unfiltered filterByAccessTier_def ex_accessTier exBounty_sel
          ex_score2)
  have acc: "filterByAccessTier [exBounty 2 middle 600 0] (accessTier (userProfile exInput))
               = [exBounty 2 middle 600 0]"
    by (simp add: filterByAccessTier_def ex_accessTier exBounty_sel)
  have srt: "sortByFinalScore [exScored 2 0 0 1 2] = [exScored 2 0 0 1 2]"
    by (simp add: sortByFinalScore_def)
  have hyp: "filterByAccessTier [exBounty 2 middle 600 0] (accessTier (userProfile exInput)) \<noteq> []
        \<and> (\<forall>sb\<in>set (scoreAllBounties exInput [exBounty 2 middle 600 0] exTagMap Map.empty False).
              relevanceScore sb < 3)"
    by (simp add: acc all2 exScored_sel)
  from getRecommendations_fallback [of exInput "[exBounty 2 middle 600 0]" exTagMap Map.empty] hyp
  obtain p rest where
    "sortByFinalScore (scoreAllBounties exInput [exBounty 2 middle 600 0] exTagMap Map.empty False) = p # rest"
    and "getRecommendations exInput [exBounty 2 middle 600 0] exTagMap Map.empty =
             Inr \<lparr>primary = p,
                  secondary = (case rest of [] \<Rightarrow> p | s # rest' \<Rightarrow> s),
                  debug = \<lparr>totalCandidates = length [exBounty 2 middle 600 0],
                           filteredByTier = length (filterByAccessTier [exBounty 2 middle 600 0]
                             (accessTier (userProfile exInput))),
                           filteredByRelevance = 0,
                           topRelevanceScores = map relevanceScore (take 5 (p # rest))\<rparr>\<rparr>"
    by blast
  then have 1: "getRecommendations exInput [exBounty 2 middle 600 0] exTagMap Map.empty =
     Inr \<lparr>primary = exScored 2 0 0 1 2, secondary = exScored 2 0 0 1 2,
          debug = \<lparr>totalCandidates = 1, filteredByTier = 1, filteredByRelevance = 0,
                   topRelevanceScores = [0]\<rparr>\<rparr>"
    by (auto simp add: all2 srt acc exScored_sel)
  have "filterByAccessTier [] (accessTier (userProfile exInput)) = []"
    by (simp add: filterByAccessTier_def)
  with getRecommendations_fallback [of exInput "[]" exTagMap Map.empty]
  have 2: "getRecommendations exInput [] exTagMap Map.empty = Inl NoBountiesAvailable"
    by blast
  show ?thesis by (intro conjI 0 1 2)
qed

subsection \<open>Blend weights\<close>






subsection \<open>Recording an event\<close>

lemma exDb_sel:
  "bountyTable exDb = [exBounty 7 basic 100 0]"
  "bountyTagTable exDb = [\<lparr>btrBountyId = 7, btrTagId = 1, btrWeight = 1\<rparr>]"
  "userTagTable exDb = []"
  "userBehaviorTagTable exDb = []"
  by (simp_all add: exDb_def)

lemma ex_first_update:
  "updateTagBehavior [] ''u'' 1 view =
     [(defaultBehaviorTag ''u'' 1)\<lparr>viewCount := 1, viewScore := 0.2, implicitScore := 0.2\<rparr>]"
  by (simp add: updateTagBehavior_def Let_def)

lemma ex_second_update:
  "updateTagBehavior
     [(defaultBehaviorTag ''u'' 1)\<lparr>viewCount := 1, viewScore := 0.2, implicitScore := 0.2\<rparr>] ''u'' 1 view =
     [(defaultBehaviorTag ''u'' 1)\<lparr>viewCount := 2, viewScore := 0.4, implicitScore := 0.04\<rparr>]"
  by (simp add: updateTagBehavior_def defaultBehaviorTag_def computeImplicitTagScore_def Let_def)

lemma ex_implicit_formula:
  "computeImplicitTagScore
     ((defaultBehaviorTag ''u'' 1)\<lparr>viewCount := 1, viewScore := 0.2, implicitScore := 0.2\<rparr>) = 0.02"
  by (simp add: defaultBehaviorTag_def computeImplicitTagScore_def)

lemma checkDivergence_table:
  "userBehaviorTagTable (checkDivergence db uid) =
     fold (divergenceStep uid
             (map_of (rev (map (\<lambda>t. (utTagId t, utScore t)) (filter (\<lambda>t. utUserId t = uid) (userTagTable db))))))
       (newMap (map (\<lambda>r. (ubtTagId r, implicitScore r))
                  (filter (\<lambda>r. ubtUserId r = uid) (userBehaviorTagTable db))))
       (userBehaviorTagTable db)"
  by (simp add: checkDivergence_def Let_def)

lemma trackBehavior_table:
  assumes "List.find (\<lambda>b. bountyId b = bid) (bountyTable db) = Some bountyData"
  shows "userBehaviorTagTable (trackBehavior db uid bid t) =
     userBehaviorTagTable (checkDivergence
       (db\<lparr>userBehaviorTagTable :=
              fold (\<lambda>tid tbl. updateTagBehavior tbl uid tid t)
                (map btrTagId (filter (\<lambda>bt. btrBountyId bt = bid) (bountyTagTable db)))
                (userBehaviorTagTable db)\<rparr>) uid)"
  using assms by (simp add: trackBehavior_def Let_def checkDivergence_table)

text \<open>
  Claim C4, evaluated at the first event. A user with no behavior record views bounty 7,
  which carries tag 1. The new record has \<open>viewCount = 1\<close> and
  \<open>viewScore = 0.2 = min(10, 1 * 0.1 * 2)\<close>, as claimed, but its \<open>implicitScore\<close> is
  \<open>0.2\<close>, the per-type score itself, while the weighted sum over the four per-type
  scores of that very record, \<open>computeImplicitTagScore\<close>, is \<open>0.02\<close>. The update
  branch for an existing record does store \<open>computeImplicitTagScore\<close>
  (\<open>ex_second_update\<close>: the second view gives \<open>0.04\<close>).
\<close>

theorem first_event_implicitScore_evaluated:
  "userBehaviorTagTable (trackBehavior exDb ''u'' 7 view) =
     [(defaultBehaviorTag ''u'' 1)\<lparr>viewCount := 1, viewScore := 0.2, implicitScore := 0.2\<rparr>]
   \<and> min 10 (real_of_int 1 * BEHAVIOR_WEIGHTS view * 2) = 0.2
   \<and> computeImplicitTagScore
       ((defaultBehaviorTag ''u'' 1)\<lparr>viewCount := 1, viewScore := 0.2, implicitScore := 0.2\<rparr>) = 0.02"
proof -
  have f: "List.find (\<lambda>b. bountyId b = 7) (bountyTable exDb) = Some (exBounty 7 basic 100 0)"
    by (simp add: exDb_sel exBounty_sel)
  have "userBehaviorTagTable (trackBehavior exDb ''u'' 7 view) =
     [(defaultBehaviorTag ''u'' 1)\<lparr>viewCount := 1, viewScore := 0.2, implicitScore := 0.2\<rparr>]"
    unfolding trackBehavior_table [OF f]
    by (simp add: checkDivergence_table exDb_sel ex_first_update)
       (simp add: defaultBehaviorTag_def newMap_def divergenceStep_def)
  moreover have "min 10 (real_of_int 1 * BEHAVIOR_WEIGHTS view * 2) = 0.2" by simp
  ultimately show ?thesis using ex_implicit_formula by simp
qed

subsection \<open>The divergence flag\<close>

lemma flagsKept_refl: "flagsKept tbl tbl"
  by (simp add: flagsKept_def)

lemma flagsKept_trans:
  assumes "flagsKept a b" and "flagsKept b c"
  shows "flagsKept a c"
proof -
  from assms have len: "length a \<le> length b" "length b \<le> length c"
    by (simp_all add: flagsKept_def)
  have "\<forall>i<length a.
        ubtUserId (c ! i) = ubtUserId (a ! i) \<and> ubtTagId (c ! i) = ubtTagId (a ! i) \<and>
        (divergenceDetected (a ! i) \<longrightarrow> divergenceDetected (c ! i))"
  proof (intro allI impI)
    fix i assume i: "i < length a"
    with len have ib: "i < length b" by simp
    from assms(1) i have "ubtUserId (b ! i) = ubtUserId (a ! i) \<and> ubtTagId (b ! i) = ubtTagId (a ! i) \<and>
        (divergenceDetected (a ! i) \<longrightarrow> divergenceDetected (b ! i))"
      by (simp add: flagsKept_def)
    moreover from assms(2) ib have "ubtUserId (c ! i) = ubtUserId (b ! i) \<and> ubtTagId (c ! i) = ubtTagId (b ! i) \<and>
        (divergenceDetected (b ! i) \<longrightarrow> divergenceDetected (c ! i))"
      by (simp add: flagsKept_def)
    ultimately show "ubtUserId (c ! i) = ubtUserId (a ! i) \<and> ubtTagId (c ! i) = ubtTagId (a ! i) \<and>
        (divergenceDetected (a ! i) \<longrightarrow> divergenceDetected (c ! i))"
      by simp
  qed
  with len show ?thesis by (simp add: flagsKept_def)
qed

lemma flagsKept_map:
  assumes "\<And>r. ubtUserId (f r) = ubtUserId r \<and> ubtTagId (f r) = ubtTagId r
                \<and> (divergenceDetected r \<longrightarrow> divergenceDetected (f r))"
  shows "flagsKept tbl (map f tbl)"
  using assms by (simp add: flagsKept_def)

lemma flagsKept_append: "flagsKept tbl (tbl @ xs)"
  by (simp add: flagsKept_def nth_append)

lemma setCountScore_keeps:
  "ubtUserId (setCountScore t c s r) = ubtUserId r"
  "ubtTagId (setCountScore t c s r) = ubtTagId r"
  "divergenceDetected (setCountScore t c s r) = divergenceDetected r"
  by (cases t; simp)+

lemma updateTagBehavior_flagsKept: "flagsKept tbl (updateTagBehavior tbl uid tid t)"
proof (cases "List.find (\<lambda>r. ubtUserId r = uid \<and> ubtTagId r = tid) tbl")
  case None
  then show ?thesis
    by (simp add: updateTagBehavior_def Let_def flagsKept_append)
next
  case (Some existing)
  then show ?thesis
    by (simp add: updateTagBehavior_def Let_def) (rule flagsKept_map, simp add: setCountScore_keeps)
qed

lemma fold_updateTagBehavior_flagsKept:
  "flagsKept tbl (fold (\<lambda>tid tbl. updateTagBehavior tbl uid tid t) tags tbl)"
proof (induction tags arbitrary: tbl)
  case Nil
  show ?case by (simp add: flagsKept_refl)
next
  case (Cons tid tags)
  have "flagsKept tbl (updateTagBehavior tbl uid tid t)"
    by (rule updateTagBehavior_flagsKept)
  moreover have "flagsKept (updateTagBehavior tbl uid tid t)
     (fold (\<lambda>tid tbl. updateTagBehavior tbl uid tid t) tags (updateTagBehavior tbl uid tid t))"
    by (rule Cons.IH)
  ultimately show ?case by (simp add: flagsKept_trans)
qed

lemma setDivergence_flagsKept: "flagsKept tbl (setDivergence uid tid e tbl)"
  unfolding setDivergence_def by (rule flagsKept_map) simp

lemma divergenceStep_flagsKept: "flagsKept tbl (divergenceStep uid em entry tbl)"
proof -
  obtain tid isc where entry: "entry = (tid, isc)" by (cases entry)
  let ?tbl1 = "if falsy (em tid) \<and> isc \<ge> 3 then setDivergence uid tid 0 tbl else tbl"
  have 1: "flagsKept tbl ?tbl1"
    by (simp add: flagsKept_refl setDivergence_flagsKept)
  show ?thesis
  proof (cases "em tid")
    case None
    with 1 show ?thesis by (simp add: divergenceStep_def entry Let_def)
  next
    case (Some e)
    have "flagsKept ?tbl1 (if e \<noteq> 0 \<and> e \<ge> 4 \<and> isc < 1
             then setDivergence uid tid (real_of_int e) ?tbl1 else ?tbl1)"
      by (simp add: flagsKept_refl setDivergence_flagsKept)
    with 1 have "flagsKept tbl (if e \<noteq> 0 \<and> e \<ge> 4 \<and> isc < 1
             then setDivergence uid tid (real_of_int e) ?tbl1 else ?tbl1)"
      by (rule flagsKept_trans)
    with Some show ?thesis by (simp add: divergenceStep_def entry Let_def)
  qed
qed

lemma fold_divergenceStep_flagsKept:
  "flagsKept tbl (fold (divergenceStep uid em) entries tbl)"
proof (induction entries arbitrary: tbl)
  case Nil
  show ?case by (simp add: flagsKept_refl)
next
  case (Cons entry entries)
  have "flagsKept tbl (divergenceStep uid em entry tbl)"
    by (rule divergenceStep_flagsKept)
  moreover have "flagsKept (divergenceStep uid em entry tbl)
     (fold (divergenceStep uid em) entries (divergenceStep uid em entry tbl))"
    by (rule Cons.IH)
  ultimately show ?case by (simp add: flagsKept_trans)
qed

lemma checkDivergence_flagsKept:
  "flagsKept (userBehaviorTagTable db) (userBehaviorTagTable (checkDivergence db uid))"
  unfolding checkDivergence_table by (rule fold_divergenceStep_flagsKept)

lemma trackBehavior_flagsKept:
  "flagsKept (userBehaviorTagTable db) (userBehaviorTagTable (trackBehavior db uid bid t))"
proof (cases "List.find (\<lambda>b. bountyId b = bid) (bountyTable db)")
  case None
  then show ?thesis by (simp add: trackBehavior_def flagsKept_refl)
next
  case (Some bountyData)
  let ?tbl1 = "fold (\<lambda>tid tbl. updateTagBehavior tbl uid tid t)
                (map btrTagId (filter (\<lambda>bt. btrBountyId bt = bid) (bountyTagTable db)))
                (userBehaviorTagTable db)"
  have 1: "flagsKept (userBehaviorTagTable db) ?tbl1"
    by (rule fold_updateTagBehavior_flagsKept)
  have 2: "flagsKept ?tbl1
        (userBehaviorTagTable (checkDivergence (db\<lparr>userBehaviorTagTable := ?tbl1\<rparr>) uid))"
    using checkDivergence_flagsKept [of "db\<lparr>userBehaviorTagTable := ?tbl1\<rparr>" uid] by simp
  from 1 2 show ?thesis
    unfolding trackBehavior_table [OF Some] by (rule flagsKept_trans)
qed

lemma behaviorSteps_flagsKept:
  assumes "behaviorStep\<^sup>*\<^sup>* db db'"
  shows "flagsKept (userBehaviorTagTable db) (userBehaviorTagTable db')"
  using assms
proof (induction rule: rtranclp_induct)
  case base
  show ?case by (rule flagsKept_refl)
next
  case (step y z)
  from step.hyps(2) have "flagsKept (userBehaviorTagTable y) (userBehaviorTagTable z)"
    by (auto elim!: behaviorStep.cases simp add: trackBehavior_flagsKept)
  with step.IH show ?case by (rule flagsKept_trans)
qed

lemma clearDivergence_table:
  "userBehaviorTagTable (clearDivergence db uid tid) =
     map (\<lambda>r. if ubtUserId r = uid \<and> ubtTagId r = tid
              then r\<lparr>divergenceDetected := False\<rparr> else r) (userBehaviorTagTable db)"
  by (simp add: clearDivergence_def)

lemma clearDivergence_clears:
  assumes r: "r \<in> set (userBehaviorTagTable (clearDivergence db uid tid))"
      and k: "ubtUserId r = uid \<and> ubtTagId r = tid"
  shows "\<not> divergenceDetected r"
proof -
  from r obtain r0 where
    r0: "r = (if ubtUserId r0 = uid \<and> ubtTagId r0 = tid
              then r0\<lparr>divergenceDetected := False\<rparr> else r0)"
    unfolding clearDivergence_table set_map by (rule imageE)
  show ?thesis
  proof (cases "ubtUserId r0 = uid \<and> ubtTagId r0 = tid")
    case True
    with r0 show ?thesis by simp
  next
    case False
    with r0 have "r = r0" by simp
    with False k show ?thesis by simp
  qed
qed

lemma markDivergencePromptShown_table:
  "userBehaviorTagTable (markDivergencePromptShown db uid now) = userBehaviorTagTable db"
  by (simp add: markDivergencePromptShown_def)

lemma clearDivergence_userTagTable_irrelevant:
  "userBehaviorTagTable (clearDivergence (db\<lparr>userTagTable := uts\<rparr>) uid tid) =
     userBehaviorTagTable (clearDivergence db uid tid)"
  by (simp add: clearDivergence_def)

lemma respondToDivergence_table:
  "userBehaviorTagTable (respondToDivergence db uid tid action newScore now) =
     userBehaviorTagTable (clearDivergence db uid tid)"
proof -
  let ?db1 = "if action = add_skill \<and> \<not> falsy newScore
                 then (case newScore of
                         None \<Rightarrow> db
                       | Some n \<Rightarrow>
                           db\<lparr>userTagTable := userTagTable db @
                                [\<lparr>utUserId = uid, utTagId = tid, utScore = n,
                                  utSource = ''divergence_prompt''\<rparr>]\<rparr>)
                 else if action = remove_skill
                 then db\<lparr>userTagTable :=
                            filter (\<lambda>t. \<not> (utUserId t = uid \<and> utTagId t = tid)) (userTagTable db)\<rparr>
                 else db"
  have "\<exists>uts. ?db1 = db\<lparr>userTagTable := uts\<rparr>"
  proof (cases "action = add_skill \<and> \<not> falsy newScore")
    case True
    then obtain n where "newScore = Some n" by (cases newScore) auto
    with True show ?thesis by auto
  next
    case False
    have same: "\<exists>uts. db = db\<lparr>userTagTable := uts\<rparr>"
      by (rule exI [of _ "userTagTable db"]) simp
    from False have e: "?db1 =
        (if action = remove_skill
         then db\<lparr>userTagTable :=
                  filter (\<lambda>t. \<not> (utUserId t = uid \<and> utTagId t = tid)) (userTagTable db)\<rparr>
         else db)"
      by (rule if_not_P)
    show ?thesis
      unfolding e
    proof (cases "action = remove_skill")
      case True
      then show "\<exists>uts. (if action = remove_skill
         then db\<lparr>userTagTable :=
                  filter (\<lambda>t. \<not> (utUserId t = uid \<and> utTagId t = tid)) (userTagTable db)\<rparr>
         else db) = db\<lparr>userTagTable := uts\<rparr>" by auto
    next
      case nr: False
      with same show "\<exists>uts. (if action = remove_skill
         then db\<lparr>userTagTable :=
                  filter (\<lambda>t. \<not> (utUserId t = uid \<and> utTagId t = tid)) (userTagTable db)\<rparr>
         else db) = db\<lparr>userTagTable := uts\<rparr>" by simp
    qed
  qed
  then obtain uts where "?db1 = db\<lparr>userTagTable := uts\<rparr>" ..
  then show ?thesis
    unfolding respondToDivergence_def Let_def markDivergencePromptShown_table
    by (simp only: clearDivergence_userTagTable_irrelevant)
qed

lemma flagsKept_nth:
  assumes "flagsKept a b" and "i < length a \<and> divergenceDetected (a ! i)"
  shows "i < length b \<and> ubtUserId (b ! i) = ubtUserId (a ! i) \<and> ubtTagId (b ! i) = ubtTagId (a ! i)
         \<and> divergenceDetected (b ! i)"
  using assms by (simp add: flagsKept_def)

text \<open>
  Claim C10. A behavior-tag row whose \<open>divergenceDetected\<close> flag is true keeps its
  position, its user and tag, and a true flag through \<open>checkDivergence\<close>, through one
  recorded behavior event (\<open>trackBehavior\<close>) and through any sequence of recorded events
  (the reflexive transitive closure of \<open>behaviorStep\<close>), whatever the scores are then;
  \<open>clearDivergence\<close>, and \<open>respondToDivergence\<close> which calls it, leave the flag false
  on every row of the user and tag.
\<close>

theorem divergenceDetected_only_cleared_explicitly:
  "(\<forall>i. i < length (userBehaviorTagTable db) \<and> divergenceDetected (userBehaviorTagTable db ! i) \<longrightarrow>
        i < length (userBehaviorTagTable (checkDivergence db uid))
        \<and> divergenceDetected (userBehaviorTagTable (checkDivergence db uid) ! i))
   \<and> (\<forall>i. i < length (userBehaviorTagTable db) \<and> divergenceDetected (userBehaviorTagTable db ! i) \<longrightarrow>
        i < length (userBehaviorTagTable (trackBehavior db uid bid t))
        \<and> ubtUserId (userBehaviorTagTable (trackBehavior db uid bid t) ! i)
            = ubtUserId (userBehaviorTagTable db ! i)
        \<and> ubtTagId (userBehaviorTagTable (trackBehavior db uid bid t) ! i)
            = ubtTagId (userBehaviorTagTable db ! i)
        \<and> divergenceDetected (userBehaviorTagTable (trackBehavior db uid bid t) ! i))
   \<and> (behaviorStep\<^sup>*\<^sup>* db db' \<longrightarrow>
        (\<forall>i. i < length (userBehaviorTagTable db) \<and> divergenceDetected (userBehaviorTagTable db ! i) \<longrightarrow>
           i < length (userBehaviorTagTable db')
           \<and> ubtUserId (userBehaviorTagTable db' ! i) = ubtUserId (userBehaviorTagTable db ! i)
           \<and> ubtTagId (userBehaviorTagTable db' ! i) = ubtTagId (userBehaviorTagTable db ! i)
           \<and> divergenceDetected (userBehaviorTagTable db' ! i)))
   \<and> (\<forall>r\<in>set (userBehaviorTagTable (clearDivergence db uid tid)).
        ubtUserId r = uid \<and> ubtTagId r = tid \<longrightarrow> \<not> divergenceDetected r)
   \<and> (\<forall>r\<in>set (userBehaviorTagTable (respondToDivergence db uid tid action newScore now)).
        ubtUserId r = uid \<and> ubtTagId r = tid \<longrightarrow> \<not> divergenceDetected r)"
proof -
  have A: "\<forall>i. i < length (userBehaviorTagTable db) \<and> divergenceDetected (userBehaviorTagTable db ! i) \<longrightarrow>
        i < length (userBehaviorTagTable (checkDivergence db uid))
        \<and> divergenceDetected (userBehaviorTagTable (checkDivergence db uid) ! i)"
    using flagsKept_nth [OF checkDivergence_flagsKept [of db uid]] by blast
  have B: "\<forall>i. i < length (userBehaviorTagTable db) \<and> divergenceDetected (userBehaviorTagTable db ! i) \<longrightarrow>
        i < length (userBehaviorTagTable (trackBehavior db uid bid t))
        \<and> ubtUserId (userBehaviorTagTable (trackBehavior db uid bid t) ! i)
            = ubtUserId (userBehaviorTagTable db ! i)
        \<and> ubtTagId (userBehaviorTagTable (trackBehavior db uid bid t) ! i)
            = ubtTagId (userBehaviorTagTable db ! i)
        \<and> divergenceDetected (userBehaviorTagTable (trackBehavior db uid bid t) ! i)"
    using flagsKept_nth [OF trackBehavior_flagsKept [of db uid bid t]] by blast
  have C: "behaviorStep\<^sup>*\<^sup>* db db' \<longrightarrow>
        (\<forall>i. i < length (userBehaviorTagTable db) \<and> divergenceDetected (userBehaviorTagTable db ! i) \<longrightarrow>
           i < length (userBehaviorTagTable db')
           \<and> ubtUserId (userBehaviorTagTable db' ! i) = ubtUserId (userBehaviorTagTable db ! i)
           \<and> ubtTagId (userBehaviorTagTable db' ! i) = ubtTagId (userBehaviorTagTable db ! i)
           \<and> divergenceDetected (userBehaviorTagTable db' ! i))"
  proof
    assume "behaviorStep\<^sup>*\<^sup>* db db'"
    then have "flagsKept (userBehaviorTagTable db) (userBehaviorTagTable db')"
      by (rule behaviorSteps_flagsKept)
    from flagsKept_nth [OF this]
    show "\<forall>i. i < length (userBehaviorTagTable db) \<and> divergenceDetected (userBehaviorTagTable db ! i) \<longrightarrow>
           i < length (userBehaviorTagTable db')
           \<and> ubtUserId (userBehaviorTagTable db' ! i) = ubtUserId (userBehaviorTagTable db ! i)
           \<and> ubtTagId (userBehaviorTagTable db' ! i) = ubtTagId (userBehaviorTagTable db ! i)
           \<and> divergenceDetected (userBehaviorTagTable db' ! i)"
      by blast
  qed
  have D: "\<forall>r\<in>set (userBehaviorTagTable (clearDivergence db uid tid)).
        ubtUserId r = uid \<and> ubtTagId r = tid \<longrightarrow> \<not> divergenceDetected r"
    using clearDivergence_clears by blast
  have E: "\<forall>r\<in>set (userBehaviorTagTable (respondToDivergence db uid tid action newScore now)).
        ubtUserId r = uid \<and> ubtTagId r = tid \<longrightarrow> \<not> divergenceDetected r"
    unfolding respondToDivergence_table using clearDivergence_clears by blast
  show ?thesis by (intro conjI A B C D E)
qed

theorem divergenceDetected_only_cleared_explicitly_witness:
  "divergenceDetected (userBehaviorTagTable exDbFlagged ! 0)
   \<and> divergenceDetected (userBehaviorTagTable (trackBehavior exDbFlagged ''u'' 7 view) ! 0)
   \<and> divergenceDetected
       (userBehaviorTagTable (trackBehavior (trackBehavior exDbFlagged ''u'' 7 view) ''u'' 7 like) ! 0)
   \<and> \<not> divergenceDetected (userBehaviorTagTable (clearDivergence exDbFlagged ''u'' 1) ! 0)"
proof -
  note T = divergenceDetected_only_cleared_explicitly
  have h: "0 < length (userBehaviorTagTable exDbFlagged)
           \<and> divergenceDetected (userBehaviorTagTable exDbFlagged ! 0)"
    by (simp add: exDbFlagged_def)
  from T [of exDbFlagged "''u''" 7 view] h
  have 1: "divergenceDetected (userBehaviorTagTable (trackBehavior exDbFlagged ''u'' 7 view) ! 0)"
    by blast
  have "behaviorStep exDbFlagged (trackBehavior exDbFlagged ''u'' 7 view)"
    by (rule behaviorStep.track)
  moreover have "behaviorStep (trackBehavior exDbFlagged ''u'' 7 view)
                   (trackBehavior (trackBehavior exDbFlagged ''u'' 7 view) ''u'' 7 like)"
    by (rule behaviorStep.track)
  ultimately have "behaviorStep\<^sup>*\<^sup>* exDbFlagged
                     (trackBehavior (trackBehavior exDbFlagged ''u'' 7 view) ''u'' 7 like)"
    by (simp add: converse_rtranclp_into_rtranclp)
  with T [of exDbFlagged _ _ _ "trackBehavior (trackBehavior exDbFlagged ''u'' 7 view) ''u'' 7 like"] h
  have 2: "divergenceDetected
       (userBehaviorTagTable (trackBehavior (trackBehavior exDbFlagged ''u'' 7 view) ''u'' 7 like) ! 0)"
    by blast
  have c: "userBehaviorTagTable (clearDivergence exDbFlagged ''u'' 1) =
             [(defaultBehaviorTag ''u'' 1)
                \<lparr>likeCount := 25, likeScore := 10, implicitScore := 2, divergenceDetected := False\<rparr>]"
    by (simp add: clearDivergence_table exDbFlagged_def defaultBehaviorTag_def)
  have "userBehaviorTagTable (clearDivergence exDbFlagged ''u'' 1) ! 0
          \<in> set (userBehaviorTagTable (clearDivergence exDbFlagged ''u'' 1))
        \<and> ubtUserId (userBehaviorTagTable (clearDivergence exDbFlagged ''u'' 1) ! 0) = ''u''
        \<and> ubtTagId (userBehaviorTagTable (clearDivergence exDbFlagged ''u'' 1) ! 0) = 1"
    by (simp add: c defaultBehaviorTag_def)
  with T [of exDbFlagged "''u''" _ _ _ 1]
  have 3: "\<not> divergenceDetected (userBehaviorTagTable (clearDivergence exDbFlagged ''u'' 1) ! 0)"
    by blast
  from h 1 2 3 show ?thesis by blast
qed

subsection \<open>The three-layer expansion\<close>

lemma set_fold_setAdd: "set (fold setAdd xs ids) = set ids \<union> set xs"
  by (induction xs arbitrary: ids) (auto simp add: setAdd_def)

lemma layer2Loop_closed:
  "layer2Loop uid l1 ms (ids, res) =
     (fold setAdd (map mMutualId (filter (\<lambda>m. mMutualId m \<notin> set l1 \<and> mMutualId m \<noteq> uid) ms)) ids,
      res @ map (\<lambda>m. \<lparr>mutualId = mMutualId m, layer = L2, strength = mStrength m * 0.5\<rparr>)
              (filter (\<lambda>m. mMutualId m \<notin> set l1 \<and> mMutualId m \<noteq> uid) ms))"
  by (induction ms arbitrary: ids res) simp_all

lemma layer3Loop_closed:
  "layer3Loop uid l1 l2 ms res =
     res @ map (\<lambda>m. \<lparr>mutualId = mMutualId m, layer = L3, strength = mStrength m * 0.25\<rparr>)
             (filter (\<lambda>m. mMutualId m \<notin> set l1 \<and> mMutualId m \<notin> set l2 \<and> mMutualId m \<noteq> uid) ms)"
  by (induction ms arbitrary: res) simp_all

lemma getMutualsThreeLayers_closed:
  "getMutualsThreeLayers tbl uid =
     map (\<lambda>m. \<lparr>mutualId = mMutualId m, layer = L1, strength = mStrength m\<rparr>) (layer1Rows tbl uid)
     @ map (\<lambda>m. \<lparr>mutualId = mMutualId m, layer = L2, strength = mStrength m * 0.5\<rparr>) (layer2Rows tbl uid)
     @ map (\<lambda>m. \<lparr>mutualId = mMutualId m, layer = L3, strength = mStrength m * 0.25\<rparr>) (layer3Rows tbl uid)"
proof (cases "layer1Rows tbl uid = []")
  case True
  then have 2: "layer2Rows tbl uid = []" by (simp add: layer2Rows_def)
  then have 3: "layer3Rows tbl uid = []" by (simp add: layer3Rows_def)
  from True have "getMutualsThreeLayers tbl uid = []"
    by (simp add: getMutualsThreeLayers_def layer1Rows_def)
  with True 2 3 show ?thesis by simp
next
  case False
  let ?l1 = "map mMutualId (layer1Rows tbl uid)"
  let ?raw2 = "filter (\<lambda>m. mUserId m \<in> set ?l1 \<and> mMutualId m \<noteq> uid) tbl"
  let ?l2 = "fold setAdd (map mMutualId (filter (\<lambda>m. mMutualId m \<notin> set ?l1 \<and> mMutualId m \<noteq> uid) ?raw2)) []"
  have k2: "filter (\<lambda>m. mMutualId m \<notin> set ?l1 \<and> mMutualId m \<noteq> uid) ?raw2 = layer2Rows tbl uid"
    by (simp add: layer2Rows_def)
  have l2set: "set ?l2 = mMutualId ` set (layer2Rows tbl uid)"
    unfolding k2 by (simp add: set_fold_setAdd)
  have k3: "filter (\<lambda>m. mMutualId m \<notin> set ?l1 \<and> mMutualId m \<notin> set ?l2 \<and> mMutualId m \<noteq> uid)
              (filter (\<lambda>m. mUserId m \<in> set ?l2 \<and> mMutualId m \<noteq> uid) tbl) = layer3Rows tbl uid"
    unfolding l2set by (simp add: layer3Rows_def)
  have empty3: "?l2 = [] \<Longrightarrow> layer3Rows tbl uid = []"
  proof -
    assume "?l2 = []"
    then have "set ?l2 = {}" by simp
    then have "mMutualId ` set (layer2Rows tbl uid) = {}" using l2set by simp
    then show "layer3Rows tbl uid = []" by (simp add: layer3Rows_def)
  qed
  have "getMutualsThreeLayers tbl uid =
     (if length ?l2 > 0
      then layer3Loop uid ?l1 ?l2 (filter (\<lambda>m. mUserId m \<in> set ?l2 \<and> mMutualId m \<noteq> uid) tbl)
             (map (\<lambda>m. \<lparr>mutualId = mMutualId m, layer = L1, strength = mStrength m\<rparr>) (layer1Rows tbl uid)
              @ map (\<lambda>m. \<lparr>mutualId = mMutualId m, layer = L2, strength = mStrength m * 0.5\<rparr>) (layer2Rows tbl uid))
      else map (\<lambda>m. \<lparr>mutualId = mMutualId m, layer = L1, strength = mStrength m\<rparr>) (layer1Rows tbl uid)
              @ map (\<lambda>m. \<lparr>mutualId = mMutualId m, layer = L2, strength = mStrength m * 0.5\<rparr>) (layer2Rows tbl uid))"
    using False
    by (simp add: getMutualsThreeLayers_def Let_def layer2Loop_closed k2 [simplified] layer1Rows_def [symmetric])
  then show ?thesis
    using empty3 by (simp add: layer3Loop_closed k3 [simplified] split: if_splits)
qed

lemma result_cases:
  assumes "e \<in> set (getMutualsThreeLayers tbl uid)"
  shows "(layer e = L1 \<and> (\<exists>row\<in>set (layer1Rows tbl uid).
             mutualId e = mMutualId row \<and> strength e = mStrength row))
       \<or> (layer e = L2 \<and> (\<exists>row\<in>set (layer2Rows tbl uid).
             mutualId e = mMutualId row \<and> strength e = mStrength row * 0.5))
       \<or> (layer e = L3 \<and> (\<exists>row\<in>set (layer3Rows tbl uid).
             mutualId e = mMutualId row \<and> strength e = mStrength row * 0.25))"
  using assms unfolding getMutualsThreeLayers_closed by auto

lemma layer1_row_in_result:
  assumes "row \<in> set (layer1Rows tbl uid)"
  shows "\<exists>e\<in>set (getMutualsThreeLayers tbl uid). layer e = L1 \<and> mutualId e = mMutualId row"
proof -
  have "\<lparr>mutualId = mMutualId row, layer = L1, strength = mStrength row\<rparr>
          \<in> set (getMutualsThreeLayers tbl uid)"
    using assms unfolding getMutualsThreeLayers_closed by simp
  then show ?thesis by force
qed

lemma layer2_row_in_result:
  assumes "row \<in> set (layer2Rows tbl uid)"
  shows "\<exists>e\<in>set (getMutualsThreeLayers tbl uid). layer e = L2 \<and> mutualId e = mMutualId row"
proof -
  have "\<lparr>mutualId = mMutualId row, layer = L2, strength = mStrength row * 0.5\<rparr>
          \<in> set (getMutualsThreeLayers tbl uid)"
    using assms unfolding getMutualsThreeLayers_closed by simp
  then show ?thesis by force
qed

lemma layer1Rows_mem:
  "row \<in> set (layer1Rows tbl uid) \<longleftrightarrow> row \<in> set tbl \<and> mUserId row = uid"
  by (simp add: layer1Rows_def)

lemma layer2Rows_mem:
  "row \<in> set (layer2Rows tbl uid) \<longleftrightarrow>
     row \<in> set tbl \<and> mUserId row \<in> mMutualId ` set (layer1Rows tbl uid) \<and> mMutualId row \<noteq> uid
     \<and> mMutualId row \<notin> mMutualId ` set (layer1Rows tbl uid)"
  by (auto simp add: layer2Rows_def)

lemma layer3Rows_mem:
  "row \<in> set (layer3Rows tbl uid) \<longleftrightarrow>
     row \<in> set tbl \<and> mUserId row \<in> mMutualId ` set (layer2Rows tbl uid) \<and> mMutualId row \<noteq> uid
     \<and> mMutualId row \<notin> mMutualId ` set (layer1Rows tbl uid)
     \<and> mMutualId row \<notin> mMutualId ` set (layer2Rows tbl uid)"
  by (auto simp add: layer3Rows_def)

lemma result_L1:
  assumes "e \<in> set (getMutualsThreeLayers tbl uid)" and "layer e = L1"
  shows "\<exists>row\<in>set (layer1Rows tbl uid). mutualId e = mMutualId row \<and> strength e = mStrength row"
  using result_cases [OF assms(1)] assms(2) by auto

lemma result_L2:
  assumes "e \<in> set (getMutualsThreeLayers tbl uid)" and "layer e = L2"
  shows "\<exists>row\<in>set (layer2Rows tbl uid). mutualId e = mMutualId row \<and> strength e = mStrength row * 0.5"
  using result_cases [OF assms(1)] assms(2) by auto

lemma result_L3:
  assumes "e \<in> set (getMutualsThreeLayers tbl uid)" and "layer e = L3"
  shows "\<exists>row\<in>set (layer3Rows tbl uid). mutualId e = mMutualId row \<and> strength e = mStrength row * 0.25"
  using result_cases [OF assms(1)] assms(2) by auto

lemma half_le: "0 \<le> (x::real) \<Longrightarrow> x * 0.5 \<le> x"
  by simp

lemma quarter_le: "0 \<le> (x::real) \<Longrightarrow> x * 0.25 \<le> x"
  by simp

lemma layer1_facts:
  assumes e: "e \<in> set (getMutualsThreeLayers tbl uid)" and l: "layer e = L1"
  shows "\<exists>row\<in>set tbl. mUserId row = uid \<and> mMutualId row = mutualId e \<and> strength e = mStrength row"
  using result_L1 [OF e l] by (auto simp add: layer1Rows_mem)

lemma layer2_facts:
  assumes e: "e \<in> set (getMutualsThreeLayers tbl uid)" and l: "layer e = L2"
  shows "mutualId e \<noteq> uid
       \<and> (\<forall>e1\<in>set (getMutualsThreeLayers tbl uid). layer e1 = L1 \<longrightarrow> mutualId e1 \<noteq> mutualId e)
       \<and> (\<exists>row\<in>set tbl.
             (\<exists>e1\<in>set (getMutualsThreeLayers tbl uid). layer e1 = L1 \<and> mutualId e1 = mUserId row)
             \<and> mMutualId row = mutualId e \<and> strength e = mStrength row * 0.5
             \<and> (0 \<le> mStrength row \<longrightarrow> strength e \<le> mStrength row))"
proof -
  from result_L2 [OF e l] obtain row where row: "row \<in> set (layer2Rows tbl uid)"
    and id: "mutualId e = mMutualId row" and st: "strength e = mStrength row * 0.5" by blast
  from row have r: "row \<in> set tbl" "mUserId row \<in> mMutualId ` set (layer1Rows tbl uid)"
    "mMutualId row \<noteq> uid" "mMutualId row \<notin> mMutualId ` set (layer1Rows tbl uid)"
    by (simp_all add: layer2Rows_mem)
  have 1: "mutualId e \<noteq> uid" using id r(3) by simp
  have 2: "\<forall>e1\<in>set (getMutualsThreeLayers tbl uid). layer e1 = L1 \<longrightarrow> mutualId e1 \<noteq> mutualId e"
  proof (intro ballI impI)
    fix e1 assume "e1 \<in> set (getMutualsThreeLayers tbl uid)" "layer e1 = L1"
    from result_L1 [OF this] have "mutualId e1 \<in> mMutualId ` set (layer1Rows tbl uid)" by auto
    with r(4) id show "mutualId e1 \<noteq> mutualId e" by auto
  qed
  from r(2) obtain r1 where "r1 \<in> set (layer1Rows tbl uid)" "mUserId row = mMutualId r1" by auto
  with layer1_row_in_result [of r1 tbl uid]
  have src: "\<exists>e1\<in>set (getMutualsThreeLayers tbl uid). layer e1 = L1 \<and> mutualId e1 = mUserId row"
    by auto
  have le: "0 \<le> mStrength row \<longrightarrow> strength e \<le> mStrength row"
    unfolding st using half_le by blast
  from r(1) src id st le
  have 3: "\<exists>row\<in>set tbl.
             (\<exists>e1\<in>set (getMutualsThreeLayers tbl uid). layer e1 = L1 \<and> mutualId e1 = mUserId row)
             \<and> mMutualId row = mutualId e \<and> strength e = mStrength row * 0.5
             \<and> (0 \<le> mStrength row \<longrightarrow> strength e \<le> mStrength row)"
    by (intro bexI [of _ row]) simp_all
  from 1 2 3 show ?thesis by (intro conjI)
qed

lemma layer3_facts:
  assumes e: "e \<in> set (getMutualsThreeLayers tbl uid)" and l: "layer e = L3"
  shows "mutualId e \<noteq> uid
       \<and> (\<forall>e1\<in>set (getMutualsThreeLayers tbl uid). layer e1 = L1 \<or> layer e1 = L2 \<longrightarrow> mutualId e1 \<noteq> mutualId e)
       \<and> (\<exists>row\<in>set tbl.
             (\<exists>e2\<in>set (getMutualsThreeLayers tbl uid). layer e2 = L2 \<and> mutualId e2 = mUserId row)
             \<and> mMutualId row = mutualId e \<and> strength e = mStrength row * 0.25
             \<and> (0 \<le> mStrength row \<longrightarrow> strength e \<le> mStrength row))"
proof -
  from result_L3 [OF e l] obtain row where row: "row \<in> set (layer3Rows tbl uid)"
    and id: "mutualId e = mMutualId row" and st: "strength e = mStrength row * 0.25" by blast
  from row have r: "row \<in> set tbl" "mUserId row \<in> mMutualId ` set (layer2Rows tbl uid)"
    "mMutualId row \<noteq> uid" "mMutualId row \<notin> mMutualId ` set (layer1Rows tbl uid)"
    "mMutualId row \<notin> mMutualId ` set (layer2Rows tbl uid)"
    by (simp_all add: layer3Rows_mem)
  have 1: "mutualId e \<noteq> uid" using id r(3) by simp
  have 2: "\<forall>e1\<in>set (getMutualsThreeLayers tbl uid). layer e1 = L1 \<or> layer e1 = L2 \<longrightarrow> mutualId e1 \<noteq> mutualId e"
  proof (intro ballI impI)
    fix e1 assume e1: "e1 \<in> set (getMutualsThreeLayers tbl uid)" and d: "layer e1 = L1 \<or> layer e1 = L2"
    from d show "mutualId e1 \<noteq> mutualId e"
    proof
      assume "layer e1 = L1"
      from result_L1 [OF e1 this] have "mutualId e1 \<in> mMutualId ` set (layer1Rows tbl uid)" by auto
      with r(4) id show ?thesis by auto
    next
      assume "layer e1 = L2"
      from result_L2 [OF e1 this] have "mutualId e1 \<in> mMutualId ` set (layer2Rows tbl uid)" by auto
      with r(5) id show ?thesis by auto
    qed
  qed
  from r(2) obtain r2 where "r2 \<in> set (layer2Rows tbl uid)" "mUserId row = mMutualId r2" by auto
  with layer2_row_in_result [of r2 tbl uid]
  have src: "\<exists>e2\<in>set (getMutualsThreeLayers tbl uid). layer e2 = L2 \<and> mutualId e2 = mUserId row"
    by auto
  have le: "0 \<le> mStrength row \<longrightarrow> strength e \<le> mStrength row"
    unfolding st using quarter_le by blast
  from r(1) src id st le
  have 3: "\<exists>row\<in>set tbl.
             (\<exists>e2\<in>set (getMutualsThreeLayers tbl uid). layer e2 = L2 \<and> mutualId e2 = mUserId row)
             \<and> mMutualId row = mutualId e \<and> strength e = mStrength row * 0.25
             \<and> (0 \<le> mStrength row \<longrightarrow> strength e \<le> mStrength row)"
    by (intro bexI [of _ row]) simp_all
  from 1 2 3 show ?thesis by (intro conjI)
qed

lemma cross_layer_distinct:
  assumes e: "e \<in> set (getMutualsThreeLayers tbl uid)" and e': "e' \<in> set (getMutualsThreeLayers tbl uid)"
      and same: "mutualId e = mutualId e'"
  shows "layer e = layer e'"
proof (rule ccontr)
  assume ne: "layer e \<noteq> layer e'"
  have ord: "\<And>a b. a \<in> set (getMutualsThreeLayers tbl uid) \<Longrightarrow> b \<in> set (getMutualsThreeLayers tbl uid)
        \<Longrightarrow> layerNum (layer a) < layerNum (layer b) \<Longrightarrow> mutualId a \<noteq> mutualId b"
  proof -
    fix a b assume a: "a \<in> set (getMutualsThreeLayers tbl uid)" and b: "b \<in> set (getMutualsThreeLayers tbl uid)"
      and lt: "layerNum (layer a) < layerNum (layer b)"
    show "mutualId a \<noteq> mutualId b"
    proof (cases "layer b")
      case L1
      with lt show ?thesis by (cases "layer a") simp_all
    next
      case L2
      with lt have "layer a = L1" by (cases "layer a") simp_all
      with layer2_facts [OF b L2] a show ?thesis by blast
    next
      case L3
      with lt have "layer a = L1 \<or> layer a = L2" by (cases "layer a") simp_all
      with layer3_facts [OF b L3] a show ?thesis by blast
    qed
  qed
  from ne have "layerNum (layer e) < layerNum (layer e') \<or> layerNum (layer e') < layerNum (layer e)"
    by (cases "layer e"; cases "layer e'") simp_all
  with ord [OF e e'] ord [OF e' e] same show False by auto
qed

lemma exDiamond_layer1: "layer1Rows exDiamond ''u'' = [exMutualRow ''u'' ''a'' 1, exMutualRow ''u'' ''b'' 1]"
  by (simp add: layer1Rows_def exDiamond_def exMutualRow_def)

lemma exDiamond_layer2: "layer2Rows exDiamond ''u'' = [exMutualRow ''a'' ''c'' 1, exMutualRow ''b'' ''c'' 0.8]"
  unfolding layer2Rows_def exDiamond_layer1
  by (simp add: exDiamond_def exMutualRow_def)

lemma exDiamond_layer3: "layer3Rows exDiamond ''u'' = [exMutualRow ''c'' ''d'' 1]"
  unfolding layer3Rows_def exDiamond_layer1 exDiamond_layer2
  by (simp add: exDiamond_def exMutualRow_def)

lemma exDiamond_result:
  "getMutualsThreeLayers exDiamond ''u'' =
     [exMutual ''a'' L1 1, exMutual ''b'' L1 1, exMutual ''c'' L2 0.5, exMutual ''c'' L2 0.4,
      exMutual ''d'' L3 0.25]"
  unfolding getMutualsThreeLayers_closed exDiamond_layer1 exDiamond_layer2 exDiamond_layer3
  by (simp add: exMutualRow_def exMutual_def)

text \<open>
  Claim C7, as the code has it. In the list \<open>getMutualsThreeLayers\<close> returns, a layer-1
  entry is a stored edge of the user with its strength; a layer-2 entry is an edge out
  of a layer-1 id, its id is neither the user nor a layer-1 id, and its strength is the
  edge's times 0.5; a layer-3 entry is an edge out of a layer-2 id, its id is neither the
  user nor a layer-1 or layer-2 id, and its strength is the edge's times 0.25; a decayed
  strength is at most the edge's when that is non-negative. Hence two entries with the
  same id are in the same layer, and no entry is the user when the user has no stored
  edge to itself. The same id can occur more than once within layer 2 or layer 3, once
  for every edge that reaches it.
\<close>

theorem getMutualsThreeLayers_layers:
  "(\<forall>e\<in>set (getMutualsThreeLayers tbl uid). layer e = L1 \<longrightarrow>
      (\<exists>row\<in>set tbl. mUserId row = uid \<and> mMutualId row = mutualId e \<and> strength e = mStrength row))
   \<and> (\<forall>e\<in>set (getMutualsThreeLayers tbl uid). layer e = L2 \<longrightarrow>
        mutualId e \<noteq> uid
        \<and> (\<forall>e1\<in>set (getMutualsThreeLayers tbl uid). layer e1 = L1 \<longrightarrow> mutualId e1 \<noteq> mutualId e)
        \<and> (\<exists>row\<in>set tbl.
              (\<exists>e1\<in>set (getMutualsThreeLayers tbl uid). layer e1 = L1 \<and> mutualId e1 = mUserId row)
              \<and> mMutualId row = mutualId e \<and> strength e = mStrength row * 0.5
              \<and> (0 \<le> mStrength row \<longrightarrow> strength e \<le> mStrength row)))
   \<and> (\<forall>e\<in>set (getMutualsThreeLayers tbl uid). layer e = L3 \<longrightarrow>
        mutualId e \<noteq> uid
        \<and> (\<forall>e1\<in>set (getMutualsThreeLayers tbl uid).
              layer e1 = L1 \<or> layer e1 = L2 \<longrightarrow> mutualId e1 \<noteq> mutualId e)
        \<and> (\<exists>row\<in>set tbl.
              (\<exists>e2\<in>set (getMutualsThreeLayers tbl uid). layer e2 = L2 \<and> mutualId e2 = mUserId row)
              \<and> mMutualId row = mutualId e \<and> strength e = mStrength row * 0.25
              \<and> (0 \<le> mStrength row \<longrightarrow> strength e \<le> mStrength row)))
   \<and> (\<forall>e\<in>set (getMutualsThreeLayers tbl uid). \<forall>e'\<in>set (getMutualsThreeLayers tbl uid).
        mutualId e = mutualId e' \<longrightarrow> layer e = layer e')
   \<and> ((\<forall>row\<in>set tbl. mUserId row = uid \<longrightarrow> mMutualId row \<noteq> uid) \<longrightarrow>
        (\<forall>e\<in>set (getMutualsThreeLayers tbl uid). mutualId e \<noteq> uid))"
proof -
  have A: "\<forall>e\<in>set (getMutualsThreeLayers tbl uid). layer e = L1 \<longrightarrow>
      (\<exists>row\<in>set tbl. mUserId row = uid \<and> mMutualId row = mutualId e \<and> strength e = mStrength row)"
    using layer1_facts by blast
  have B: "\<forall>e\<in>set (getMutualsThreeLayers tbl uid). layer e = L2 \<longrightarrow>
        mutualId e \<noteq> uid
        \<and> (\<forall>e1\<in>set (getMutualsThreeLayers tbl uid). layer e1 = L1 \<longrightarrow> mutualId e1 \<noteq> mutualId e)
        \<and> (\<exists>row\<in>set tbl.
              (\<exists>e1\<in>set (getMutualsThreeLayers tbl uid). layer e1 = L1 \<and> mutualId e1 = mUserId row)
              \<and> mMutualId row = mutualId e \<and> strength e = mStrength row * 0.5
              \<and> (0 \<le> mStrength row \<longrightarrow> strength e \<le> mStrength row))"
    by (intro ballI impI) (rule layer2_facts)
  have C: "\<forall>e\<in>set (getMutualsThreeLayers tbl uid). layer e = L3 \<longrightarrow>
        mutualId e \<noteq> uid
        \<and> (\<forall>e1\<in>set (getMutualsThreeLayers tbl uid).
              layer e1 = L1 \<or> layer e1 = L2 \<longrightarrow> mutualId e1 \<noteq> mutualId e)
        \<and> (\<exists>row\<in>set tbl.
              (\<exists>e2\<in>set (getMutualsThreeLayers tbl uid). layer e2 = L2 \<and> mutualId e2 = mUserId row)
              \<and> mMutualId row = mutualId e \<and> strength e = mStrength row * 0.25
              \<and> (0 \<le> mStrength row \<longrightarrow> strength e \<le> mStrength row))"
    by (intro ballI impI) (rule layer3_facts)
  have D: "\<forall>e\<in>set (getMutualsThreeLayers tbl uid). \<forall>e'\<in>set (getMutualsThreeLayers tbl uid).
        mutualId e = mutualId e' \<longrightarrow> layer e = layer e'"
    by (intro ballI impI) (rule cross_layer_distinct)
  have E: "(\<forall>row\<in>set tbl. mUserId row = uid \<longrightarrow> mMutualId row \<noteq> uid) \<longrightarrow>
        (\<forall>e\<in>set (getMutualsThreeLayers tbl uid). mutualId e \<noteq> uid)"
  proof (intro impI ballI)
    fix e
    assume noself: "\<forall>row\<in>set tbl. mUserId row = uid \<longrightarrow> mMutualId row \<noteq> uid"
      and e: "e \<in> set (getMutualsThreeLayers tbl uid)"
    show "mutualId e \<noteq> uid"
    proof (cases "layer e")
      case L1
      from layer1_facts [OF e L1] noself show ?thesis by auto
    next
      case L2
      from layer2_facts [OF e L2] show ?thesis by blast
    next
      case L3
      from layer3_facts [OF e L3] show ?thesis by blast
    qed
  qed
  show ?thesis by (intro conjI A B C D E)
qed

theorem getMutualsThreeLayers_layers_witness:
  "getMutualsThreeLayers exDiamond ''u'' =
     [exMutual ''a'' L1 1, exMutual ''b'' L1 1, exMutual ''c'' L2 0.5, exMutual ''c'' L2 0.4,
      exMutual ''d'' L3 0.25]
   \<and> (\<exists>row\<in>set exDiamond. mUserId row = ''u'' \<and> mMutualId row = ''a'' \<and> mStrength row = 1)
   \<and> (\<exists>row\<in>set exDiamond. mMutualId row = ''c'' \<and> 0.4 = mStrength row * 0.5)
   \<and> (\<exists>row\<in>set exDiamond. mMutualId row = ''d'' \<and> 0.25 = mStrength row * 0.25)
   \<and> mutualId (exMutual ''d'' L3 0.25) \<noteq> mutualId (exMutual ''c'' L2 0.4)"
proof -
  note T = getMutualsThreeLayers_layers [of exDiamond "''u''"]
  note R = exDiamond_result
  have a: "exMutual ''a'' L1 1 \<in> set (getMutualsThreeLayers exDiamond ''u'')
           \<and> layer (exMutual ''a'' L1 1) = L1"
    by (simp add: R) (simp add: exMutual_def)
  have c: "exMutual ''c'' L2 0.4 \<in> set (getMutualsThreeLayers exDiamond ''u'')
           \<and> layer (exMutual ''c'' L2 0.4) = L2"
    by (simp add: R) (simp add: exMutual_def)
  have d: "exMutual ''d'' L3 0.25 \<in> set (getMutualsThreeLayers exDiamond ''u'')
           \<and> layer (exMutual ''d'' L3 0.25) = L3"
    by (simp add: R) (simp add: exMutual_def)
  from T a have "\<exists>row\<in>set exDiamond. mUserId row = ''u'' \<and> mMutualId row = mutualId (exMutual ''a'' L1 1)
                   \<and> strength (exMutual ''a'' L1 1) = mStrength row"
    by blast
  then have 1: "\<exists>row\<in>set exDiamond. mUserId row = ''u'' \<and> mMutualId row = ''a'' \<and> mStrength row = 1"
    by (simp add: exMutual_def)
  from T c have "\<exists>row\<in>set exDiamond. mMutualId row = mutualId (exMutual ''c'' L2 0.4)
                   \<and> strength (exMutual ''c'' L2 0.4) = mStrength row * 0.5"
    by blast
  then have 2: "\<exists>row\<in>set exDiamond. mMutualId row = ''c'' \<and> 0.4 = mStrength row * 0.5"
    by (simp add: exMutual_def)
  from T d have "\<exists>row\<in>set exDiamond. mMutualId row = mutualId (exMutual ''d'' L3 0.25)
                   \<and> strength (exMutual ''d'' L3 0.25) = mStrength row * 0.25"
    by blast
  then have 3: "\<exists>row\<in>set exDiamond. mMutualId row = ''d'' \<and> 0.25 = mStrength row * 0.25"
    by (simp add: exMutual_def)
  from T c d have 4: "mutualId (exMutual ''d'' L3 0.25) \<noteq> mutualId (exMutual ''c'' L2 0.4)"
    by metis
  show ?thesis by (intro conjI R 1 2 3 4)
qed

lemma exSelfEdge_result:
  "getMutualsThreeLayers exSelfEdge ''u'' = [exMutual ''u'' L1 1, exMutual ''a'' L1 1]"
proof -
  have 1: "layer1Rows exSelfEdge ''u'' = [exMutualRow ''u'' ''u'' 1, exMutualRow ''u'' ''a'' 1]"
    by (simp add: layer1Rows_def exSelfEdge_def exMutualRow_def)
  have 2: "layer2Rows exSelfEdge ''u'' = []"
    unfolding layer2Rows_def 1 by (simp add: exSelfEdge_def exMutualRow_def)
  have 3: "layer3Rows exSelfEdge ''u'' = []"
    unfolding layer3Rows_def 2 by simp
  show ?thesis
    unfolding getMutualsThreeLayers_closed 1 2 3 by (simp add: exMutualRow_def exMutual_def)
qed

text \<open>
  In the diamond both \<open>a\<close> and \<open>b\<close> have an edge to \<open>c\<close>, and \<open>c\<close> is entered in layer 2
  once for each: the returned list has two entries with the same \<open>mutualId\<close>. And layer 1
  is the user's stored rows as they are: a stored edge from the user to itself is
  returned as an entry.
\<close>

theorem getMutualsThreeLayers_duplicate_counterexample:
  "\<not> distinct (map mutualId (getMutualsThreeLayers exDiamond ''u''))
   \<and> ''u'' \<in> mutualId ` set (getMutualsThreeLayers exSelfEdge ''u'')"
  by (simp add: exDiamond_result exSelfEdge_result exMutual_def)

end
